theory Spec2Isabelle
  imports Main "HOL-Library.Word" "HOL-Library.AList" "HOL-Library.Sublist"
begin

section \<open>The fixtool agent: values, errors and the frame codec\<close>

text \<open>
  The agent (\<^verbatim>\<open>src/agent/fixtool-agent.py\<close>) is a single-threaded Python program:
  every callback runs to completion, so each method is a function from the program
  state to the program state. A Python call either returns a value or raises; a raise
  keeps every mutation made before it, so each method gives back an outcome together
  with the state reached.
\<close>

type_synonym byte = "8 word"
type_synonym bytes = "byte list"

text \<open>Socket objects, named by a number; \<^verbatim>\<open>socket.socket()\<close> and
  \<^verbatim>\<open>accept()\<close> hand out fresh ones.\<close>

type_synonym sock = nat

text \<open>The exceptions the modelled code can raise.\<close>

datatype error =
    KeyError | IndexError | TypeError | ValueError | AttributeError | OverflowError | OSError | StructError

datatype 'a outcome = Return 'a | Raise error

subsection \<open>\<^verbatim>\<open>struct.pack(">L", n)\<close> and \<^verbatim>\<open>struct.unpack(b'>L', b)\<close>\<close>

text \<open>\<^verbatim>\<open>struct.pack\<close> raises \<^verbatim>\<open>struct.error\<close> for a number that does not fit 32
  bits (a length is never negative); \<^verbatim>\<open>struct.unpack\<close> raises it for a buffer that is
  not 4 bytes long.\<close>

definition pack_L :: "nat \<Rightarrow> error + bytes" where
  "pack_L n =
     (if n < 2 ^ 32
      then Inr [of_nat (n div 2 ^ 24), of_nat (n div 2 ^ 16), of_nat (n div 2 ^ 8), of_nat n]
      else Inl StructError)"

fun unpack_L :: "bytes \<Rightarrow> error + nat" where
  "unpack_L [a, b, c, d] = Inr (unat a * 2 ^ 24 + unat b * 2 ^ 16 + unat c * 2 ^ 8 + unat d)"
| "unpack_L _ = Inl StructError"

subsection \<open>ControlSession\<close>

record control_session =
  cs_socket :: sock
  cs_buffer :: bytes

definition ControlSession_init :: "sock \<Rightarrow> control_session" where
  "ControlSession_init s = \<lparr>cs_socket = s, cs_buffer = []\<rparr>"

text \<open>
  \<^verbatim>\<open>ControlSession.append_bytes\<close>. The first test reads the length of the accumulated
  \<^verbatim>\<open>self._buffer\<close>; the second reads the length of the argument \<^verbatim>\<open>buffer\<close>, as the
  source does. The result is the returned payload (\<open>None\<close> for Python's \<^verbatim>\<open>None\<close>)
  and the session after the call.
\<close>

definition append_bytes ::
    "control_session \<Rightarrow> bytes \<Rightarrow> bytes option outcome \<times> control_session" where
  "append_bytes cs buffer =
     (let cs1 = cs\<lparr>cs_buffer := cs_buffer cs @ buffer\<rparr> in
      if length (cs_buffer cs1) \<le> 4 then (Return None, cs1)
      else
        (case unpack_L (take 4 (cs_buffer cs1)) of
           Inl e \<Rightarrow> (Raise e, cs1)
         | Inr payload_length \<Rightarrow>
             if length buffer < 4 + payload_length then (Return None, cs1)
             else
               (let cs2 = cs1\<lparr>cs_buffer := drop 4 (cs_buffer cs1)\<rparr>;
                    payload = take payload_length (cs_buffer cs2);
                    cs3 = cs2\<lparr>cs_buffer := drop payload_length (cs_buffer cs2)\<rparr>
                in (Return (Some payload), cs3))))"

text \<open>
  \<^verbatim>\<open>ControlSession.send\<close> hands \<^verbatim>\<open>header + payload\<close> to \<^verbatim>\<open>sendall\<close> in one
  call. \<open>frame\<close> is that byte string: the encoding side of the frame codec.
\<close>

definition frame :: "bytes \<Rightarrow> error + bytes" where
  "frame payload =
     (let payload_length = length payload in
      case pack_L payload_length of
        Inl e \<Rightarrow> Inl e
      | Inr header \<Rightarrow> Inr (header @ payload))"

text \<open>Feeding a list of chunks to one session, one \<^verbatim>\<open>append_bytes\<close> call per chunk, in
  order; the payloads the calls returned are collected in order. A raise ends the run.\<close>

fun feed :: "control_session \<Rightarrow> bytes list \<Rightarrow> bytes list outcome \<times> control_session" where
  "feed cs [] = (Return [], cs)"
| "feed cs (chunk # chunks) =
     (case append_bytes cs chunk of
        (Raise e, cs') \<Rightarrow> (Raise e, cs')
      | (Return r, cs') \<Rightarrow>
          (case feed cs' chunks of
             (Raise e, cs'') \<Rightarrow> (Raise e, cs'')
           | (Return ps, cs'') \<Rightarrow>
               (Return ((case r of None \<Rightarrow> [] | Some p \<Rightarrow> [p]) @ ps), cs'')))"

section \<open>JSON values, dictionary keys and string formatting\<close>

text \<open>
  What \<^verbatim>\<open>json.loads\<close> returns. Floating-point numbers are left out of the model. An
  object is a Python \<^verbatim>\<open>dict\<close> with string keys; the list holds each key once.
\<close>

datatype json =
    JNull
  | JBool bool
  | JInt int
  | JStr string
  | JList "json list"
  | JObj "(string \<times> json) list"

type_synonym message = "(string \<times> json) list"

text \<open>\<^verbatim>\<open>message.get(k)\<close> gives \<^verbatim>\<open>None\<close> for a missing key; \<^verbatim>\<open>message[k]\<close> raises
  \<^verbatim>\<open>KeyError\<close>.\<close>

definition msg_get :: "message \<Rightarrow> string \<Rightarrow> json" where
  "msg_get m k = (case map_of m k of None \<Rightarrow> JNull | Some v \<Rightarrow> v)"

definition msg_index :: "message \<Rightarrow> string \<Rightarrow> error + json" where
  "msg_index m k = (case map_of m k of None \<Rightarrow> Inl KeyError | Some v \<Rightarrow> Inr v)"

text \<open>
  The entity tables are dictionaries keyed by whatever value the request carries. A list
  or an object is unhashable (\<^verbatim>\<open>TypeError\<close> on lookup and on store); \<^verbatim>\<open>True\<close> and
  \<^verbatim>\<open>1\<close> are the same key, as are \<^verbatim>\<open>False\<close> and \<^verbatim>\<open>0\<close>.
\<close>

datatype key = KNone | KNum int | KStr string

fun key_of :: "json \<Rightarrow> key option" where
  "key_of JNull = Some KNone"
| "key_of (JBool b) = Some (KNum (if b then 1 else 0))"
| "key_of (JInt i) = Some (KNum i)"
| "key_of (JStr s) = Some (KStr s)"
| "key_of (JList _) = None"
| "key_of (JObj _) = None"

text \<open>\<^verbatim>\<open>str(n)\<close> for a natural number: its decimal digits.\<close>

definition digit_char :: "nat \<Rightarrow> char" where
  "digit_char d = ''0123456789'' ! d"

fun digits :: "nat \<Rightarrow> string" where
  "digits n =
     (if n < 10 then [digit_char n]
      else digits (n div 10) @ [digit_char (n mod 10)])"

declare digits.simps [simp del]

text \<open>
  \<^verbatim>\<open>"... %s ..." % v\<close> puts \<^verbatim>\<open>str(v)\<close> in the place of \<^verbatim>\<open>%s\<close>. Every handler looks
  the name up in a table before it formats it, so a list or an object (unhashable) never
  reaches a format; their text here only stands for their \<^verbatim>\<open>repr\<close>.
\<close>

fun py_str :: "json \<Rightarrow> string" where
  "py_str JNull = ''None''"
| "py_str (JBool b) = (if b then ''True'' else ''False'')"
| "py_str (JInt i) = (if i < 0 then ''-'' @ digits (nat (- i)) else digits (nat i))"
| "py_str (JStr s) = s"
| "py_str (JList _) = ''[...]''"
| "py_str (JObj _) = ''{...}''"

definition format_s :: "string \<Rightarrow> string \<Rightarrow> json \<Rightarrow> string" where
  "format_s before after v = before @ py_str v @ after"

text \<open>
  Three handlers format with \<^verbatim>\<open>"No such client '$s'" % name\<close> (and the same for a
  server): the string has no conversion specifier, so \<^verbatim>\<open>%\<close> raises \<^verbatim>\<open>TypeError\<close>
  ("not all arguments converted") for every argument but a mapping.
\<close>

definition format_no_spec :: "string \<Rightarrow> json \<Rightarrow> error + string" where
  "format_no_spec s v = (case v of JObj _ \<Rightarrow> Inr s | _ \<Rightarrow> Inl TypeError)"

section \<open>The entities\<close>

type_synonym fixmsg = bytes
type_synonym sid = nat

text \<open>
  The classes of \<^verbatim>\<open>fixtool.message\<close> are not among the sources. A response is the
  constructor call the handler makes, with its arguments in the source's order: the
  name, the success flag, the reason, and what the verb adds.
\<close>

datatype response =
    ClientCreatedMessage json bool string
  | ClientDestroyedMessage json bool string
  | ClientConnectedMessage json bool string
  | ClientIsConnectedResponse json bool string bool
  | ServerCreatedMessage json bool string
  | ServerDestroyedMessage json bool string
  | ServerListenedMessage json bool string
  | ServerUnlistenedMessage json bool string
  | ServerPendingAcceptCountResponse json bool string nat
  | ServerAcceptedMessage json bool string json
  | ServerIsConnectedResponse json bool string bool
  | ServerDisconnectedMessage json bool string

text \<open>
  What lies outside the program: \<^verbatim>\<open>json.loads\<close>, whether the operating system lets a
  \<^verbatim>\<open>connect\<close> or a \<^verbatim>\<open>bind\<close> succeed, and the \<^verbatim>\<open>simplefix\<close> parser (its state is the
  bytes it holds). Running out of sockets and a failing \<^verbatim>\<open>sendall\<close> are not modelled.
\<close>

record env =
  loads :: "bytes \<Rightarrow> error + json"
  connect_ok :: "string \<Rightarrow> int \<Rightarrow> bool"
  bind_ok :: "int \<Rightarrow> bool"
  append_buffer :: "bytes \<Rightarrow> bytes \<Rightarrow> bytes"
  get_message :: "bytes \<Rightarrow> fixmsg option \<times> bytes"

record client =
  c_name :: json
  c_comp_id :: bytes
  c_auto_heartbeat :: bool
  c_auto_sequence :: bool
  c_raw :: bool
  c_next_send_sequence :: int
  c_last_seen_sequence :: int
  c_host :: json
  c_port :: json
  c_is_connected :: bool
  c_socket :: sock
  c_parser :: bytes
  c_recv_queue :: "fixmsg list"

text \<open>A \<^verbatim>\<open>ServerSession\<close>. Its \<^verbatim>\<open>_server\<close> field, a reference back to the owning
  server that no method reads, is left out.\<close>

record server_session =
  ss_socket :: "sock option"
  ss_name :: json
  ss_parser :: bytes
  ss_is_connected :: bool
  ss_queue :: "fixmsg list"

text \<open>A \<^verbatim>\<open>Server\<close>. It refers to its sessions; the accepted table keeps the order of
  insertion, which \<^verbatim>\<open>destroy\<close> iterates.\<close>

record server =
  sv_auto_heartbeat :: bool
  sv_auto_sequence :: bool
  sv_raw :: bool
  sv_next_send_sequence :: int
  sv_last_seen_sequence :: int
  sv_pending_sessions :: "sid list"
  sv_accepted_sessions :: "(key \<times> sid) list"
  sv_socket :: "sock option"

text \<open>
  The state of the process. The first six fields are the \<^verbatim>\<open>FixToolAgent\<close> object. A
  \<^verbatim>\<open>ServerSession\<close> object is reachable both from its server and from the agent's
  \<^verbatim>\<open>_server_sessions\<close> table, so sessions live in a store (\<open>heap\<close>) and the tables hold
  references; an entry of \<^verbatim>\<open>_server_sessions\<close> can also be bound to \<^verbatim>\<open>None\<close>. Clients
  and servers are reachable from their table only and are kept in it by value. The event
  loop is the set of sockets with a reader registered (the callback is always the
  \<^verbatim>\<open>readable\<close> or \<^verbatim>\<open>acceptable\<close> method of the object that owns the socket);
  \<open>closed_socks\<close> are the sockets \<^verbatim>\<open>close()\<close> was called on; \<open>sent\<close> lists the
  responses handed to \<^verbatim>\<open>ControlSession.send\<close>, each with the socket of its session.
\<close>

record state =
  a_port :: int
  a_socket :: "sock option"
  control_sessions :: "sock \<rightharpoonup> control_session"
  clients :: "key \<rightharpoonup> client"
  servers :: "key \<rightharpoonup> server"
  server_sessions :: "key \<rightharpoonup> sid option"
  heap :: "sid \<Rightarrow> server_session"
  next_sid :: sid
  next_sock :: sock
  readers :: "sock set"
  closed_socks :: "sock set"
  sent :: "(sock \<times> response) list"

subsection \<open>Sockets and the event loop\<close>

definition new_socket :: "state \<Rightarrow> sock \<times> state" where
  "new_socket st = (next_sock st, st\<lparr>next_sock := Suc (next_sock st)\<rparr>)"

definition add_reader :: "sock \<Rightarrow> state \<Rightarrow> state" where
  "add_reader fd st = st\<lparr>readers := insert fd (readers st)\<rparr>"

text \<open>
  \<^verbatim>\<open>loop.remove_reader(s)\<close> raises \<^verbatim>\<open>ValueError\<close> when \<^verbatim>\<open>s\<close> is \<^verbatim>\<open>None\<close>, and when
  \<^verbatim>\<open>s\<close> is a closed socket that is not registered (its \<^verbatim>\<open>fileno()\<close> is -1); removing
  an open socket that is not registered is no error.
\<close>

definition remove_reader :: "sock option \<Rightarrow> state \<Rightarrow> unit outcome \<times> state" where
  "remove_reader s st =
     (case s of
        None \<Rightarrow> (Raise ValueError, st)
      | Some fd \<Rightarrow>
          if fd \<in> closed_socks st \<and> fd \<notin> readers st then (Raise ValueError, st)
          else (Return (), st\<lparr>readers := readers st - {fd}\<rparr>))"

definition close_socket :: "sock \<Rightarrow> state \<Rightarrow> state" where
  "close_socket fd st = st\<lparr>closed_socks := insert fd (closed_socks st)\<rparr>"

text \<open>A port argument of \<^verbatim>\<open>connect\<close> or \<^verbatim>\<open>bind\<close>: an integer (\<^verbatim>\<open>bool\<close> is one),
  \<^verbatim>\<open>TypeError\<close> otherwise, \<^verbatim>\<open>OverflowError\<close> outside 0..65535.\<close>

definition port_arg :: "json \<Rightarrow> error + int" where
  "port_arg p =
     (case p of
        JInt n \<Rightarrow> if n < 0 \<or> 65535 < n then Inl OverflowError else Inr n
      | JBool b \<Rightarrow> Inr (if b then 1 else 0)
      | _ \<Rightarrow> Inl TypeError)"

text \<open>\<^verbatim>\<open>sock.connect((host, port))\<close>: the address is parsed first (host, then port),
  then the operating system is asked.\<close>

definition sock_connect :: "env \<Rightarrow> sock \<Rightarrow> json \<Rightarrow> json \<Rightarrow> state \<Rightarrow> unit outcome" where
  "sock_connect e fd host port st =
     (case host of
        JStr h \<Rightarrow>
          (case port_arg port of
             Inl err \<Rightarrow> Raise err
           | Inr p \<Rightarrow>
               if fd \<in> closed_socks st then Raise OSError
               else if connect_ok e h p then Return ()
               else Raise OSError)
      | _ \<Rightarrow> Raise TypeError)"

definition sock_bind :: "env \<Rightarrow> json \<Rightarrow> unit outcome" where
  "sock_bind e port =
     (case port_arg port of
        Inl err \<Rightarrow> Raise err
      | Inr p \<Rightarrow> if bind_ok e p then Return () else Raise OSError)"

text \<open>The loop of \<^verbatim>\<open>readable\<close> over the parser: every message \<^verbatim>\<open>get_message\<close> gives
  is queued, until it gives \<^verbatim>\<open>None\<close>. The parser is not part of the program, so the
  loop is not known to end: \<open>None\<close> is a loop that never returns.\<close>

partial_function (option) drain ::
    "(bytes \<Rightarrow> fixmsg option \<times> bytes) \<Rightarrow> bytes \<Rightarrow> fixmsg list \<Rightarrow> (bytes \<times> fixmsg list) option" where
  "drain gm p q =
     (case gm p of
        (None, p') \<Rightarrow> Some (p', q)
      | (Some m, p') \<Rightarrow> drain gm p' (q @ [m]))"

subsection \<open>Client\<close>

definition Client_init :: "json \<Rightarrow> state \<Rightarrow> client \<times> state" where
  "Client_init name st =
     (let (fd, st1) = new_socket st in
      (\<lparr>c_name = name, c_comp_id = [], c_auto_heartbeat = True, c_auto_sequence = True,
        c_raw = False, c_next_send_sequence = 0, c_last_seen_sequence = 0,
        c_host = JNull, c_port = JNull, c_is_connected = False,
        c_socket = fd, c_parser = [], c_recv_queue = []\<rparr>, st1))"

definition Client_disconnect :: "client \<Rightarrow> state \<Rightarrow> unit outcome \<times> client \<times> state" where
  "Client_disconnect c st =
     (case remove_reader (Some (c_socket c)) st of
        (Raise err, st1) \<Rightarrow> (Raise err, c, st1)
      | (Return _, st1) \<Rightarrow>
          (Return (), c\<lparr>c_is_connected := False\<rparr>, close_socket (c_socket c) st1))"

definition Client_destroy :: "client \<Rightarrow> state \<Rightarrow> unit outcome \<times> client \<times> state" where
  "Client_destroy c st =
     (if c_is_connected c then Client_disconnect c st else (Return (), c, st))"

definition Client_connect ::
    "env \<Rightarrow> client \<Rightarrow> json \<Rightarrow> json \<Rightarrow> state \<Rightarrow> unit outcome \<times> client \<times> state" where
  "Client_connect e c host port st =
     (let c1 = c\<lparr>c_host := host, c_port := port\<rparr> in
      case sock_connect e (c_socket c1) (c_host c1) (c_port c1) st of
        Raise err \<Rightarrow> (Raise err, c1, st)
      | Return _ \<Rightarrow> (Return (), c1\<lparr>c_is_connected := True\<rparr>, add_reader (c_socket c1) st))"

definition Client_is_connected :: "client \<Rightarrow> bool" where
  "Client_is_connected c = c_is_connected c"

text \<open>\<^verbatim>\<open>Client.readable\<close>, with \<open>buf\<close> what \<^verbatim>\<open>recv\<close> returned.\<close>

definition Client_readable ::
    "env \<Rightarrow> client \<Rightarrow> bytes \<Rightarrow> state \<Rightarrow> (unit outcome \<times> client \<times> state) option" where
  "Client_readable e c buf st =
     (if length buf = 0 then Some (Client_disconnect c st)
      else
        (case drain (get_message e) (append_buffer e (c_parser c) buf) (c_recv_queue c) of
           None \<Rightarrow> None
         | Some (p, q) \<Rightarrow> Some (Return (), c\<lparr>c_parser := p, c_recv_queue := q\<rparr>, st)))"

subsection \<open>ServerSession\<close>

definition ServerSession_init :: "sock \<Rightarrow> state \<Rightarrow> sid \<times> state" where
  "ServerSession_init fd st =
     (let i = next_sid st;
          s = \<lparr>ss_socket = Some fd, ss_name = JNull, ss_parser = [], ss_is_connected = True,
               ss_queue = []\<rparr>
      in (i, add_reader fd (st\<lparr>heap := (heap st)(i := s), next_sid := Suc i\<rparr>)))"

definition ServerSession_disconnect :: "sid \<Rightarrow> state \<Rightarrow> unit outcome \<times> state" where
  "ServerSession_disconnect i st =
     (case remove_reader (ss_socket (heap st i)) st of
        (Raise err, st1) \<Rightarrow> (Raise err, st1)
      | (Return _, st1) \<Rightarrow>
          (case ss_socket (heap st1 i) of
             None \<Rightarrow> (Raise AttributeError, st1)
           | Some fd \<Rightarrow>
               (let st2 = close_socket fd st1 in
                (Return (),
                 st2\<lparr>heap := (heap st2)(i := (heap st2 i)\<lparr>ss_socket := None,
                                                         ss_is_connected := False\<rparr>)\<rparr>))))"

definition ServerSession_destroy :: "sid \<Rightarrow> state \<Rightarrow> unit outcome \<times> state" where
  "ServerSession_destroy i st =
     (case (if ss_is_connected (heap st i) then ServerSession_disconnect i st
            else (Return (), st)) of
        (Raise err, st1) \<Rightarrow> (Raise err, st1)
      | (Return _, st1) \<Rightarrow>
          (Return (), st1\<lparr>heap := (heap st1)(i := (heap st1 i)\<lparr>ss_queue := []\<rparr>)\<rparr>))"

definition ServerSession_set_name :: "sid \<Rightarrow> json \<Rightarrow> state \<Rightarrow> state" where
  "ServerSession_set_name i name st =
     st\<lparr>heap := (heap st)(i := (heap st i)\<lparr>ss_name := name\<rparr>)\<rparr>"

definition ServerSession_is_connected :: "sid \<Rightarrow> state \<Rightarrow> bool" where
  "ServerSession_is_connected i st = ss_is_connected (heap st i)"

text \<open>\<^verbatim>\<open>ServerSession.readable\<close>, with \<open>buf\<close> what \<^verbatim>\<open>recv\<close> returned.\<close>

definition ServerSession_readable ::
    "env \<Rightarrow> sid \<Rightarrow> bytes \<Rightarrow> state \<Rightarrow> (unit outcome \<times> state) option" where
  "ServerSession_readable e i buf st =
     (if length buf = 0
      then Some (Return (), st\<lparr>heap := (heap st)(i := (heap st i)\<lparr>ss_is_connected := False\<rparr>)\<rparr>)
      else
        (case drain (get_message e) (append_buffer e (ss_parser (heap st i)) buf)
                (ss_queue (heap st i)) of
           None \<Rightarrow> None
         | Some (p, q) \<Rightarrow>
             Some (Return (),
                   st\<lparr>heap := (heap st)(i := (heap st i)\<lparr>ss_parser := p, ss_queue := q\<rparr>)\<rparr>)))"

subsection \<open>Server\<close>

definition Server_init :: server where
  "Server_init =
     \<lparr>sv_auto_heartbeat = True, sv_auto_sequence = True, sv_raw = False,
      sv_next_send_sequence = 0, sv_last_seen_sequence = 0,
      sv_pending_sessions = [], sv_accepted_sessions = [], sv_socket = None\<rparr>"

text \<open>The two loops of \<^verbatim>\<open>Server.destroy\<close>: \<^verbatim>\<open>session.destroy()\<close> for each session, in
  order; a raise ends the loop.\<close>

fun destroy_each :: "sid list \<Rightarrow> state \<Rightarrow> unit outcome \<times> state" where
  "destroy_each [] st = (Return (), st)"
| "destroy_each (i # rest) st =
     (case ServerSession_destroy i st of
        (Raise err, st1) \<Rightarrow> (Raise err, st1)
      | (Return _, st1) \<Rightarrow> destroy_each rest st1)"

text \<open>
  \<^verbatim>\<open>Server.destroy\<close>. For a server with a socket it calls \<^verbatim>\<open>self.unlisten()\<close>, and
  \<^verbatim>\<open>unlisten\<close> is declared with a \<^verbatim>\<open>port\<close> parameter: the call raises \<^verbatim>\<open>TypeError\<close>
  (a missing argument) before the body of \<^verbatim>\<open>unlisten\<close> runs.
\<close>

definition Server_destroy :: "server \<Rightarrow> state \<Rightarrow> unit outcome \<times> server \<times> state" where
  "Server_destroy sv st =
     (if sv_socket sv \<noteq> None then (Raise TypeError, sv, st)
      else
        (case destroy_each (sv_pending_sessions sv) st of
           (Raise err, st1) \<Rightarrow> (Raise err, sv, st1)
         | (Return _, st1) \<Rightarrow>
             (let sv1 = sv\<lparr>sv_pending_sessions := []\<rparr> in
              case destroy_each (map snd (sv_accepted_sessions sv1)) st1 of
                (Raise err, st2) \<Rightarrow> (Raise err, sv1, st2)
              | (Return _, st2) \<Rightarrow> (Return (), sv1\<lparr>sv_accepted_sessions := []\<rparr>, st2))))"

definition Server_listen ::
    "env \<Rightarrow> server \<Rightarrow> json \<Rightarrow> state \<Rightarrow> unit outcome \<times> server \<times> state" where
  "Server_listen e sv port st =
     (let (fd, st1) = new_socket st;
          sv1 = sv\<lparr>sv_socket := Some fd\<rparr>
      in case sock_bind e port of
           Raise err \<Rightarrow> (Raise err, sv1, st1)
         | Return _ \<Rightarrow> (Return (), sv1, add_reader fd st1))"

definition Server_unlisten ::
    "server \<Rightarrow> json \<Rightarrow> state \<Rightarrow> unit outcome \<times> server \<times> state" where
  "Server_unlisten sv port st =
     (case remove_reader (sv_socket sv) st of
        (Raise err, st1) \<Rightarrow> (Raise err, sv, st1)
      | (Return _, st1) \<Rightarrow>
          (case sv_socket sv of
             None \<Rightarrow> (Raise AttributeError, sv, st1)
           | Some fd \<Rightarrow> (Return (), sv\<lparr>sv_socket := None\<rparr>, close_socket fd st1)))"

text \<open>\<^verbatim>\<open>Server.acceptable\<close>: the readiness callback of the listening socket.\<close>

definition Server_acceptable :: "server \<Rightarrow> state \<Rightarrow> unit outcome \<times> server \<times> state" where
  "Server_acceptable sv st =
     (case sv_socket sv of
        None \<Rightarrow> (Raise AttributeError, sv, st)
      | Some _ \<Rightarrow>
          (let (fd, st1) = new_socket st;
               (session, st2) = ServerSession_init fd st1
           in (Return (), sv\<lparr>sv_pending_sessions := sv_pending_sessions sv @ [session]\<rparr>, st2)))"

definition pending_client_count :: "server \<Rightarrow> nat" where
  "pending_client_count sv = length (sv_pending_sessions sv)"

text \<open>\<^verbatim>\<open>Server.accept_client_session\<close>: \<open>Return None\<close> is the \<^verbatim>\<open>None\<close> it returns when
  nothing is pending. Storing under an unhashable name raises after the session has been
  popped and named.\<close>

definition accept_client_session ::
    "server \<Rightarrow> json \<Rightarrow> state \<Rightarrow> sid option outcome \<times> server \<times> state" where
  "accept_client_session sv name st =
     (if pending_client_count sv < 1 then (Return None, sv, st)
      else
        (case sv_pending_sessions sv of
           [] \<Rightarrow> (Raise IndexError, sv, st)
         | client # rest \<Rightarrow>
             (let sv1 = sv\<lparr>sv_pending_sessions := rest\<rparr>;
                  st1 = ServerSession_set_name client name st
              in case key_of name of
                   None \<Rightarrow> (Raise TypeError, sv1, st1)
                 | Some k \<Rightarrow>
                     (Return (Some client),
                      sv1\<lparr>sv_accepted_sessions := AList.update k client (sv_accepted_sessions sv1)\<rparr>,
                      st1))))"

section \<open>FixToolAgent\<close>

text \<open>The constructor, run in a process that has no socket yet.\<close>

definition blank_session :: server_session where
  "blank_session =
     \<lparr>ss_socket = None, ss_name = JNull, ss_parser = [], ss_is_connected = False, ss_queue = []\<rparr>"

definition FixToolAgent_init :: "env \<Rightarrow> unit outcome \<times> state" where
  "FixToolAgent_init e =
     (let st0 = \<lparr>a_port = 11011, a_socket = None, control_sessions = Map.empty,
                 clients = Map.empty, servers = Map.empty, server_sessions = Map.empty,
                 heap = (\<lambda>_. blank_session), next_sid = 0, next_sock = 0,
                 readers = {}, closed_socks = {}, sent = []\<rparr>;
          (fd, st1) = new_socket st0;
          st2 = st1\<lparr>a_socket := Some fd\<rparr>
      in case sock_bind e (JInt (a_port st2)) of
           Raise err \<Rightarrow> (Raise err, st2)
         | Return _ \<Rightarrow> (Return (), add_reader fd st2))"

text \<open>\<^verbatim>\<open>FixToolAgent.accept\<close>: a new control connection.\<close>

definition FixToolAgent_accept :: "state \<Rightarrow> unit outcome \<times> state" where
  "FixToolAgent_accept st =
     (case a_socket st of
        None \<Rightarrow> (Raise AttributeError, st)
      | Some _ \<Rightarrow>
          (let (fd, st1) = new_socket st;
               st2 = add_reader fd st1
           in (Return (),
               st2\<lparr>control_sessions := (control_sessions st2)(fd \<mapsto> ControlSession_init fd)\<rparr>)))"

text \<open>\<^verbatim>\<open>control.send(response.to_json().encode())\<close>: the response goes out on the
  socket of the control session, framed by \<open>frame\<close>.\<close>

definition send_response :: "control_session \<Rightarrow> response \<Rightarrow> state \<Rightarrow> state" where
  "send_response control r st = st\<lparr>sent := sent st @ [(cs_socket control, r)]\<rparr>"

definition quote :: string where
  "quote = [CHR 0x27]"

subsection \<open>The handlers\<close>

definition handle_client_create ::
    "control_session \<Rightarrow> message \<Rightarrow> state \<Rightarrow> unit outcome \<times> state" where
  "handle_client_create control message st =
     (let name = msg_get message ''name'' in
      case key_of name of
        None \<Rightarrow> (Raise TypeError, st)
      | Some k \<Rightarrow>
          if clients st k \<noteq> None
          then (Return (),
                send_response control
                  (ClientCreatedMessage name False (format_s ''Client '' '' already exists'' name)) st)
          else
            (let (c, st1) = Client_init name st;
                 st2 = st1\<lparr>clients := (clients st1)(k \<mapsto> c)\<rparr>
             in (Return (), send_response control (ClientCreatedMessage name True []) st2)))"

definition handle_client_destroy ::
    "control_session \<Rightarrow> message \<Rightarrow> state \<Rightarrow> unit outcome \<times> state" where
  "handle_client_destroy control message st =
     (let name = msg_get message ''name'' in
      case key_of name of
        None \<Rightarrow> (Raise TypeError, st)
      | Some k \<Rightarrow>
          (case clients st k of
             None \<Rightarrow>
               (case format_no_spec (''No such client '' @ quote @ ''$s'' @ quote) name of
                  Inl err \<Rightarrow> (Raise err, st)
                | Inr reason \<Rightarrow>
                    (Return (), send_response control (ClientDestroyedMessage name False reason) st))
           | Some client \<Rightarrow>
               (case Client_destroy client st of
                  (Raise err, c1, st1) \<Rightarrow> (Raise err, st1\<lparr>clients := (clients st1)(k \<mapsto> c1)\<rparr>)
                | (Return _, c1, st1) \<Rightarrow>
                    (let st2 = st1\<lparr>clients := (clients st1)(k := None)\<rparr>
                     in (Return (),
                         send_response control (ClientDestroyedMessage name True []) st2)))))"

definition handle_client_connect ::
    "env \<Rightarrow> control_session \<Rightarrow> message \<Rightarrow> state \<Rightarrow> unit outcome \<times> state" where
  "handle_client_connect e control message st =
     (let name = msg_get message ''name'' in
      case key_of name of
        None \<Rightarrow> (Raise TypeError, st)
      | Some k \<Rightarrow>
          (case clients st k of
             None \<Rightarrow>
               (case format_no_spec (''No such client '' @ quote @ ''$s'' @ quote) name of
                  Inl err \<Rightarrow> (Raise err, st)
                | Inr reason \<Rightarrow>
                    (Return (), send_response control (ClientConnectedMessage name False reason) st))
           | Some client \<Rightarrow>
               (case Client_connect e client (msg_get message ''host'') (msg_get message ''port'') st of
                  (Raise err, c1, st1) \<Rightarrow> (Raise err, st1\<lparr>clients := (clients st1)(k \<mapsto> c1)\<rparr>)
                | (Return _, c1, st1) \<Rightarrow>
                    (let st2 = st1\<lparr>clients := (clients st1)(k \<mapsto> c1)\<rparr>
                     in (Return (),
                         send_response control (ClientConnectedMessage name True []) st2)))))"

definition handle_client_is_connected_request ::
    "control_session \<Rightarrow> message \<Rightarrow> state \<Rightarrow> unit outcome \<times> state" where
  "handle_client_is_connected_request control message st =
     (let name = msg_get message ''name'' in
      case key_of name of
        None \<Rightarrow> (Raise TypeError, st)
      | Some k \<Rightarrow>
          (case clients st k of
             None \<Rightarrow>
               (Return (),
                send_response control
                  (ClientIsConnectedResponse name False (format_s ''No such client '' [] name) False)
                  st)
           | Some client \<Rightarrow>
               (let is_connected = Client_is_connected client
                in (Return (),
                    send_response control (ClientIsConnectedResponse name True [] is_connected) st))))"

definition handle_server_create ::
    "control_session \<Rightarrow> message \<Rightarrow> state \<Rightarrow> unit outcome \<times> state" where
  "handle_server_create client message st =
     (let name = msg_get message ''name'' in
      case key_of name of
        None \<Rightarrow> (Raise TypeError, st)
      | Some k \<Rightarrow>
          if servers st k \<noteq> None
          then (Return (),
                send_response client
                  (ServerCreatedMessage name False
                     (format_s (''Server '' @ quote) (quote @ '' already exists'') name)) st)
          else
            (let server = Server_init;
                 st1 = st\<lparr>servers := (servers st)(k \<mapsto> server)\<rparr>
             in (Return (), send_response client (ServerCreatedMessage name True []) st1)))"

definition handle_server_destroy ::
    "control_session \<Rightarrow> message \<Rightarrow> state \<Rightarrow> unit outcome \<times> state" where
  "handle_server_destroy control message st =
     (let name = msg_get message ''name'' in
      case key_of name of
        None \<Rightarrow> (Raise TypeError, st)
      | Some k \<Rightarrow>
          (case servers st k of
             None \<Rightarrow>
               (case format_no_spec (''No such server '' @ quote @ ''$s'' @ quote) name of
                  Inl err \<Rightarrow> (Raise err, st)
                | Inr reason \<Rightarrow>
                    (Return (), send_response control (ServerDestroyedMessage name False reason) st))
           | Some server \<Rightarrow>
               (case Server_destroy server st of
                  (Raise err, sv1, st1) \<Rightarrow> (Raise err, st1\<lparr>servers := (servers st1)(k \<mapsto> sv1)\<rparr>)
                | (Return _, sv1, st1) \<Rightarrow>
                    (let st2 = st1\<lparr>servers := (servers st1)(k := None)\<rparr>
                     in (Return (),
                         send_response control (ServerDestroyedMessage name True []) st2)))))"

text \<open>The test \<^verbatim>\<open>port is None or port < 0 or port > 65535\<close>: comparing a string, a list
  or an object with \<^verbatim>\<open>0\<close> raises \<^verbatim>\<open>TypeError\<close>; \<^verbatim>\<open>True\<close> and \<^verbatim>\<open>False\<close> compare as 1
  and 0.\<close>

definition bad_port :: "json \<Rightarrow> error + bool" where
  "bad_port port =
     (case port of
        JNull \<Rightarrow> Inr True
      | JInt n \<Rightarrow> Inr (n < 0 \<or> 65535 < n)
      | JBool b \<Rightarrow> Inr False
      | _ \<Rightarrow> Inl TypeError)"

definition handle_server_listen ::
    "env \<Rightarrow> control_session \<Rightarrow> message \<Rightarrow> state \<Rightarrow> unit outcome \<times> state" where
  "handle_server_listen e client message st =
     (case msg_index message ''name'' of
        Inl err \<Rightarrow> (Raise err, st)
      | Inr name \<Rightarrow>
          (case key_of name of
             None \<Rightarrow> (Raise TypeError, st)
           | Some k \<Rightarrow>
               (case servers st k of
                  None \<Rightarrow>
                    (Return (),
                     send_response client
                       (ServerListenedMessage name False
                          (format_s (''No such server '' @ quote) quote name)) st)
                | Some server \<Rightarrow>
                    (let port = msg_get message ''port'' in
                     case bad_port port of
                       Inl err \<Rightarrow> (Raise err, st)
                     | Inr True \<Rightarrow>
                         (Return (),
                          send_response client
                            (ServerListenedMessage name False ''Bad or missing port'') st)
                     | Inr False \<Rightarrow>
                         (case Server_listen e server port st of
                            (Raise err, sv1, st1) \<Rightarrow>
                              (Raise err, st1\<lparr>servers := (servers st1)(k \<mapsto> sv1)\<rparr>)
                          | (Return _, sv1, st1) \<Rightarrow>
                              (let st2 = st1\<lparr>servers := (servers st1)(k \<mapsto> sv1)\<rparr>
                               in (Return (),
                                   send_response client (ServerListenedMessage name True [])
                                     st2)))))))"

definition handle_server_unlisten ::
    "control_session \<Rightarrow> message \<Rightarrow> state \<Rightarrow> unit outcome \<times> state" where
  "handle_server_unlisten client message st =
     (case msg_index message ''name'' of
        Inl err \<Rightarrow> (Raise err, st)
      | Inr name \<Rightarrow>
          (case key_of name of
             None \<Rightarrow> (Raise TypeError, st)
           | Some k \<Rightarrow>
               (case servers st k of
                  None \<Rightarrow>
                    (Return (),
                     send_response client
                       (ServerUnlistenedMessage name False
                          (format_s (''No such server '' @ quote) quote name)) st)
                | Some server \<Rightarrow>
                    (let port = msg_get message ''port'' in
                     case bad_port port of
                       Inl err \<Rightarrow> (Raise err, st)
                     | Inr True \<Rightarrow>
                         (Return (),
                          send_response client
                            (ServerUnlistenedMessage name False ''Bad or missing port'') st)
                     | Inr False \<Rightarrow>
                         (case Server_unlisten server port st of
                            (Raise err, sv1, st1) \<Rightarrow>
                              (Raise err, st1\<lparr>servers := (servers st1)(k \<mapsto> sv1)\<rparr>)
                          | (Return _, sv1, st1) \<Rightarrow>
                              (let st2 = st1\<lparr>servers := (servers st1)(k \<mapsto> sv1)\<rparr>
                               in (Return (),
                                   send_response client (ServerUnlistenedMessage name True [])
                                     st2)))))))"

definition handle_server_pending_accept_request ::
    "control_session \<Rightarrow> message \<Rightarrow> state \<Rightarrow> unit outcome \<times> state" where
  "handle_server_pending_accept_request control message st =
     (case msg_index message ''name'' of
        Inl err \<Rightarrow> (Raise err, st)
      | Inr name \<Rightarrow>
          (case key_of name of
             None \<Rightarrow> (Raise TypeError, st)
           | Some k \<Rightarrow>
               (case servers st k of
                  None \<Rightarrow>
                    (Return (),
                     send_response control
                       (ServerPendingAcceptCountResponse name False
                          (format_s (''No such server '' @ quote) quote name) 0) st)
                | Some server \<Rightarrow>
                    (let count = pending_client_count server
                     in (Return (),
                         send_response control
                           (ServerPendingAcceptCountResponse name True [] count) st)))))"

definition handle_server_accept ::
    "control_session \<Rightarrow> message \<Rightarrow> state \<Rightarrow> unit outcome \<times> state" where
  "handle_server_accept control message st =
     (case msg_index message ''name'' of
        Inl err \<Rightarrow> (Raise err, st)
      | Inr name \<Rightarrow>
          (case key_of name of
             None \<Rightarrow> (Raise TypeError, st)
           | Some k \<Rightarrow>
               (case servers st k of
                  None \<Rightarrow>
                    (Return (),
                     send_response control
                       (ServerAcceptedMessage name False
                          (format_s (''No such server '' @ quote) quote name) (JStr [])) st)
                | Some server \<Rightarrow>
                    (let session_name = msg_get message ''session_name'' in
                     case accept_client_session server session_name st of
                       (Raise err, sv1, st1) \<Rightarrow>
                         (Raise err, st1\<lparr>servers := (servers st1)(k \<mapsto> sv1)\<rparr>)
                     | (Return session, sv1, st1) \<Rightarrow>
                         (let st2 = st1\<lparr>servers := (servers st1)(k \<mapsto> sv1)\<rparr> in
                          case key_of session_name of
                            None \<Rightarrow> (Raise TypeError, st2)
                          | Some sk \<Rightarrow>
                              (let st3 = st2\<lparr>server_sessions :=
                                              (server_sessions st2)(sk \<mapsto> session)\<rparr>
                               in (Return (),
                                   send_response control
                                     (ServerAcceptedMessage name True [] session_name) st3)))))))"

text \<open>\<^verbatim>\<open>self._server_sessions.get(name)\<close> is \<^verbatim>\<open>None\<close> both for a name that is not in the
  table and for a name the table binds to \<^verbatim>\<open>None\<close>.\<close>

definition server_sessions_get :: "state \<Rightarrow> key \<Rightarrow> sid option" where
  "server_sessions_get st k = (case server_sessions st k of None \<Rightarrow> None | Some bound \<Rightarrow> bound)"

definition handle_server_is_connected_request ::
    "control_session \<Rightarrow> message \<Rightarrow> state \<Rightarrow> unit outcome \<times> state" where
  "handle_server_is_connected_request control message st =
     (let name = msg_get message ''name'' in
      case key_of name of
        None \<Rightarrow> (Raise TypeError, st)
      | Some k \<Rightarrow>
          (case server_sessions_get st k of
             None \<Rightarrow>
               (Return (),
                send_response control
                  (ServerIsConnectedResponse name False (format_s ''No such session '' [] name) False)
                  st)
           | Some server_session \<Rightarrow>
               (let is_connected = ServerSession_is_connected server_session st
                in (Return (),
                    send_response control (ServerIsConnectedResponse name True [] is_connected)
                      st))))"

definition handle_server_disconnect ::
    "control_session \<Rightarrow> message \<Rightarrow> state \<Rightarrow> unit outcome \<times> state" where
  "handle_server_disconnect control message st =
     (let name = msg_get message ''name'' in
      case key_of name of
        None \<Rightarrow> (Raise TypeError, st)
      | Some k \<Rightarrow>
          (case server_sessions_get st k of
             None \<Rightarrow>
               (Return (),
                send_response control
                  (ServerDisconnectedMessage name False (format_s ''No such session '' [] name)) st)
           | Some server_session \<Rightarrow>
               (case ServerSession_disconnect server_session st of
                  (Raise err, st1) \<Rightarrow> (Raise err, st1)
                | (Return _, st1) \<Rightarrow>
                    (Return (),
                     send_response control (ServerDisconnectedMessage name True []) st1))))"

subsection \<open>Dispatch\<close>

text \<open>\<^verbatim>\<open>handle_request\<close>: \<^verbatim>\<open>message["type"]\<close> raises \<^verbatim>\<open>TypeError\<close> for a decoded value
  that is not an object and \<^verbatim>\<open>KeyError\<close> for an object without the field.\<close>

definition handle_request ::
    "env \<Rightarrow> control_session \<Rightarrow> json \<Rightarrow> state \<Rightarrow> unit outcome \<times> state" where
  "handle_request e client message st =
     (case message of
        JObj m \<Rightarrow>
          (case msg_index m ''type'' of
             Inl err \<Rightarrow> (Raise err, st)
           | Inr message_type \<Rightarrow>
               if message_type = JStr ''client_create'' then handle_client_create client m st
               else if message_type = JStr ''client_connect'' then handle_client_connect e client m st
               else if message_type = JStr ''client_is_connected_request''
                 then handle_client_is_connected_request client m st
               else if message_type = JStr ''client_destroy'' then handle_client_destroy client m st
               else if message_type = JStr ''server_create'' then handle_server_create client m st
               else if message_type = JStr ''server_destroy'' then handle_server_destroy client m st
               else if message_type = JStr ''server_listen'' then handle_server_listen e client m st
               else if message_type = JStr ''server_unlisten'' then handle_server_unlisten client m st
               else if message_type = JStr ''server_pending_accept_request''
                 then handle_server_pending_accept_request client m st
               else if message_type = JStr ''server_accept'' then handle_server_accept client m st
               else if message_type = JStr ''server_is_connected_request''
                 then handle_server_is_connected_request client m st
               else if message_type = JStr ''server_disconnect'' then handle_server_disconnect client m st
               else if message_type = JStr ''server_queue_length'' then (Return (), st)
               else if message_type = JStr ''server_get_message'' then (Return (), st)
               else if message_type = JStr ''server_send_message'' then (Return (), st)
               else (Return (), st))
      | _ \<Rightarrow> (Raise TypeError, st))"

text \<open>
  The loop of \<^verbatim>\<open>FixToolAgent.readable\<close>,
  \<^verbatim>\<open>while payload is not None: ...; payload = None  # FIXME: deal with multiple messages\<close>:
  the body decodes and dispatches the payload and then sets the loop variable to
  \<^verbatim>\<open>None\<close>.
\<close>

function dispatch_loop ::
    "env \<Rightarrow> control_session \<Rightarrow> bytes option \<Rightarrow> state \<Rightarrow> unit outcome \<times> state" where
  "dispatch_loop e control_session None st = (Return (), st)"
| "dispatch_loop e control_session (Some payload) st =
     (case loads e payload of
        Inl err \<Rightarrow> (Raise err, st)
      | Inr message \<Rightarrow>
          (case handle_request e control_session message st of
             (Raise err, st1) \<Rightarrow> (Raise err, st1)
           | (Return _, st1) \<Rightarrow> dispatch_loop e control_session None st1))"
  by pat_completeness auto
termination
  by (relation "measure (\<lambda>(e, c, payload, st). case payload of None \<Rightarrow> 0 | Some _ \<Rightarrow> Suc 0)") auto

text \<open>\<^verbatim>\<open>FixToolAgent.readable(sock)\<close>, with \<open>buf\<close> what \<^verbatim>\<open>sock.recv(65536)\<close> returned
  (at most 65536 bytes).\<close>

definition FixToolAgent_readable :: "env \<Rightarrow> sock \<Rightarrow> bytes \<Rightarrow> state \<Rightarrow> unit outcome \<times> state" where
  "FixToolAgent_readable e sock buf st =
     (case control_sessions st sock of
        None \<Rightarrow> (Raise KeyError, st)
      | Some control_session \<Rightarrow>
          if length buf = 0
          then
            (case remove_reader (Some sock) st of
               (Raise err, st1) \<Rightarrow> (Raise err, st1)
             | (Return _, st1) \<Rightarrow>
                 (let st2 = st1\<lparr>control_sessions := (control_sessions st1)(sock := None)\<rparr>
                  in (Return (), close_socket (cs_socket control_session) st2)))
          else
            (case append_bytes control_session buf of
               (Raise err, cs1) \<Rightarrow>
                 (Raise err, st\<lparr>control_sessions := (control_sessions st)(sock \<mapsto> cs1)\<rparr>)
             | (Return payload, cs1) \<Rightarrow>
                 dispatch_loop e cs1 payload
                   (st\<lparr>control_sessions := (control_sessions st)(sock \<mapsto> cs1)\<rparr>)))"

section \<open>A session after \<^verbatim>\<open>destroy\<close>\<close>

text \<open>What \<^verbatim>\<open>ServerSession.destroy\<close> leaves behind when it returns: the session is not
  connected and its queue is empty.\<close>

definition destroyed :: "state \<Rightarrow> sid \<Rightarrow> bool" where
  "destroyed st i = (\<not> ss_is_connected (heap st i) \<and> ss_queue (heap st i) = [])"

text \<open>
  A condition on the sessions \<open>js\<close> under which destroying them one after the other
  raises nothing: each of them that is connected has a socket that is not closed, and no
  other connected one has the same socket. Every session is made with a socket of its own
  and loses it when it disconnects.
\<close>

definition sessions_sound :: "state \<Rightarrow> sid list \<Rightarrow> bool" where
  "sessions_sound st js =
     (\<forall>j \<in> set js. ss_is_connected (heap st j) \<longrightarrow>
        (\<exists>fd. ss_socket (heap st j) = Some fd \<and> fd \<notin> closed_socks st \<and>
              (\<forall>j' \<in> set js. j' \<noteq> j \<and> ss_is_connected (heap st j') \<longrightarrow>
                 ss_socket (heap st j') \<noteq> Some fd)))"

section \<open>Sample inputs\<close>

text \<open>
  Two control requests as they arrive on the wire, the JSON texts
  \<^verbatim>\<open>{"type": "client_create", "name": "A"}\<close> and
  \<^verbatim>\<open>{"type": "client_create", "name": "B"}\<close> in ASCII, and an environment in which
  \<^verbatim>\<open>json.loads\<close> decodes these two texts, every \<^verbatim>\<open>connect\<close> and \<^verbatim>\<open>bind\<close> with a
  valid address succeeds, and the FIX parser has no complete message to give.
\<close>

definition request_A :: bytes where
  "request_A =
     [123, 34, 116, 121, 112, 101, 34, 58, 32, 34, 99, 108, 105, 101, 110, 116, 95, 99,
      114, 101, 97, 116, 101, 34, 44, 32, 34, 110, 97, 109, 101, 34, 58, 32, 34, 65, 34,
      125]"

definition request_B :: bytes where
  "request_B =
     [123, 34, 116, 121, 112, 101, 34, 58, 32, 34, 99, 108, 105, 101, 110, 116, 95, 99,
      114, 101, 97, 116, 101, 34, 44, 32, 34, 110, 97, 109, 101, 34, 58, 32, 34, 66, 34,
      125]"

definition sample_loads :: "bytes \<Rightarrow> error + json" where
  "sample_loads b =
     (if b = request_A then Inr (JObj [(''type'', JStr ''client_create''), (''name'', JStr ''A'')])
      else if b = request_B
        then Inr (JObj [(''type'', JStr ''client_create''), (''name'', JStr ''B'')])
      else Inl ValueError)"

definition sample_env :: env where
  "sample_env =
     \<lparr>loads = sample_loads, connect_ok = (\<lambda>host port. True), bind_ok = (\<lambda>port. True),
      append_buffer = (\<lambda>held buf. held @ buf), get_message = (\<lambda>held. (None, held))\<rparr>"

text \<open>The agent after its constructor has run, and after it has then accepted one
  control connection (socket 1; socket 0 is the listening socket).\<close>

definition started :: state where
  "started = snd (FixToolAgent_init sample_env)"

definition with_control :: state where
  "with_control = snd (FixToolAgent_accept started)"

text \<open>
  The event loop calls the \<^verbatim>\<open>acceptable\<close> method of a server object when its
  listening socket is readable; here the server is the one the table holds under \<open>k\<close>.
\<close>

definition acceptable_event :: "key \<Rightarrow> state \<Rightarrow> unit outcome \<times> state" where
  "acceptable_event k st =
     (case servers st k of
        None \<Rightarrow> (Return (), st)
      | Some sv \<Rightarrow>
          (case Server_acceptable sv st of
             (out, sv1, st1) \<Rightarrow> (out, st1\<lparr>servers := (servers st1)(k \<mapsto> sv1)\<rparr>)))"

text \<open>A decoded request handled on the sample control connection; the state after it.\<close>

definition control_1 :: control_session where
  "control_1 = \<lparr>cs_socket = 1, cs_buffer = []\<rparr>"

definition after_request :: "message \<Rightarrow> state \<Rightarrow> state" where
  "after_request m st = snd (handle_request sample_env control_1 (JObj m) st)"

text \<open>
  A run of the agent: client \<^verbatim>\<open>"A"\<close> is created (\<open>with_client\<close>) and connected, server
  \<^verbatim>\<open>"S"\<close> is created (\<open>with_server\<close>) and listens, one connection arrives and is accepted
  as session \<^verbatim>\<open>"x"\<close> (\<open>busy\<close>); then the server stops listening (\<open>quiet\<close>).
\<close>

definition with_client :: state where
  "with_client =
     after_request [(''type'', JStr ''client_create''), (''name'', JStr ''A'')] with_control"

definition with_server :: state where
  "with_server =
     after_request [(''type'', JStr ''server_create''), (''name'', JStr ''S'')]
       (after_request [(''type'', JStr ''client_connect''), (''name'', JStr ''A''),
                       (''host'', JStr ''localhost''), (''port'', JInt 9000)] with_client)"

definition busy :: state where
  "busy =
     after_request [(''type'', JStr ''server_accept''), (''name'', JStr ''S''),
                    (''session_name'', JStr ''x'')]
       (snd (acceptable_event (KStr ''S'')
          (after_request [(''type'', JStr ''server_listen''), (''name'', JStr ''S''),
                          (''port'', JInt 9001)] with_server)))"

definition quiet :: state where
  "quiet =
     after_request [(''type'', JStr ''server_unlisten''), (''name'', JStr ''S''),
                    (''port'', JInt 9001)] busy"

section \<open>Properties of the frame codec\<close>

lemma be32_split:
  fixes n :: nat
  shows "n div 2 ^ 24 * 2 ^ 24 + n div 2 ^ 16 mod 256 * 2 ^ 16 + n div 2 ^ 8 mod 256 * 2 ^ 8
         + n mod 256 = n"
proof -
  define q1 where "q1 = n div 256"
  define q2 where "q2 = q1 div 256"
  define q3 where "q3 = q2 div 256"
  have e1: "n = q1 * 256 + n mod 256" by (simp add: q1_def)
  have e2: "q1 = q2 * 256 + q1 mod 256" by (simp add: q2_def)
  have e3: "q2 = q3 * 256 + q2 mod 256" by (simp add: q3_def)
  have d2: "n div 2 ^ 16 = q2" by (simp add: q1_def q2_def div_mult2_eq)
  have d3: "n div 2 ^ 24 = q3" by (simp add: q1_def q2_def q3_def div_mult2_eq)
  have d1: "n div 2 ^ 8 = q1" by (simp add: q1_def)
  have "q3 * 2 ^ 24 + q2 mod 256 * 2 ^ 16 + q1 mod 256 * 2 ^ 8 + n mod 256
        = ((q3 * 256 + q2 mod 256) * 256 + q1 mod 256) * 256 + n mod 256"
    by (simp add: algebra_simps)
  also have "\<dots> = n" using e1 e2 e3 by simp
  finally show ?thesis by (simp only: d1 d2 d3)
qed

lemma unpack_pack_L:
  assumes "n < 2 ^ 32"
  shows "\<exists>h. pack_L n = Inr h \<and> length h = 4 \<and> unpack_L h = Inr n"
proof -
  have a: "n div 2 ^ 24 mod 256 = n div 2 ^ 24" using assms by simp
  have "unat (of_nat (n div 2 ^ 24) :: byte) * 2 ^ 24
        + unat (of_nat (n div 2 ^ 16) :: byte) * 2 ^ 16
        + unat (of_nat (n div 2 ^ 8) :: byte) * 2 ^ 8
        + unat (of_nat n :: byte) = n"
    using be32_split [of n] a by (simp add: unat_of_nat)
  then show ?thesis using assms by (simp add: pack_L_def)
qed

lemma frameD:
  assumes "frame p = Inr f"
  shows "\<exists>h. f = h @ p \<and> length h = 4 \<and> unpack_L h = Inr (length p)"
proof (cases "length p < 2 ^ 32")
  case True
  from unpack_pack_L [OF True] obtain h where
    h: "pack_L (length p) = Inr h" "length h = 4" "unpack_L h = Inr (length p)" by blast
  with assms have "f = h @ p" by (simp add: frame_def)
  with h show ?thesis by blast
next
  case False
  with assms show ?thesis by (simp add: frame_def pack_L_def)
qed

lemma frame_defined:
  "length p < 2 ^ 32 \<Longrightarrow> \<exists>f. frame p = Inr f"
  by (simp add: frame_def pack_L_def Let_def)

lemma append_bytes_waits:
  assumes "length h = 4" and "unpack_L h = Inr n"
    and "prefix (cs_buffer cs @ buffer) (h @ p)"
    and "length buffer < 4 + n"
  shows "append_bytes cs buffer = (Return None, cs\<lparr>cs_buffer := cs_buffer cs @ buffer\<rparr>)"
proof (cases "length (cs_buffer cs @ buffer) \<le> 4")
  case True
  then show ?thesis by (simp add: append_bytes_def)
next
  case False
  from assms(3) obtain r where r: "h @ p = (cs_buffer cs @ buffer) @ r"
    by (auto simp: prefix_def)
  have "take 4 (cs_buffer cs @ buffer) = take 4 ((cs_buffer cs @ buffer) @ r)"
    using False by simp
  also have "\<dots> = h" using assms(1) by (simp only: r [symmetric]) simp
  finally have "take 4 (cs_buffer cs @ buffer) = h" .
  with False assms(2,4) show ?thesis
    by (simp add: append_bytes_def)
qed

lemma feed_short_chunks:
  assumes "length h = 4" and "unpack_L h = Inr n"
  shows "prefix (cs_buffer cs @ concat chunks) (h @ p) \<Longrightarrow>
         \<forall>c \<in> set chunks. length c < 4 + n \<Longrightarrow>
         feed cs chunks = (Return [], cs\<lparr>cs_buffer := cs_buffer cs @ concat chunks\<rparr>)"
proof (induction chunks arbitrary: cs)
  case Nil
  then show ?case by simp
next
  case (Cons c chunks)
  let ?cs' = "cs\<lparr>cs_buffer := cs_buffer cs @ c\<rparr>"
  have pre: "prefix (cs_buffer cs @ c) (h @ p)"
    using Cons.prems(1) by (metis append.assoc concat.simps(2) prefix_def)
  have step: "append_bytes cs c = (Return None, ?cs')"
    using append_bytes_waits [OF assms pre] Cons.prems(2) by simp
  have "feed ?cs' chunks = (Return [], ?cs'\<lparr>cs_buffer := cs_buffer ?cs' @ concat chunks\<rparr>)"
    using Cons.IH [of ?cs'] Cons.prems by simp
  with step show ?case by simp
qed

lemma append_bytes_whole_frame:
  assumes "p \<noteq> []" and "frame p = Inr f" and "cs_buffer cs = []"
  shows "append_bytes cs f = (Return (Some p), cs)"
proof -
  from frameD [OF assms(2)] obtain h where
    h: "f = h @ p" "length h = 4" "unpack_L h = Inr (length p)" by blast
  have "4 < length f" using h assms(1) by (cases p) simp_all
  then show ?thesis using h assms(3) by (simp add: append_bytes_def)
qed

lemma append_bytes_complete:
  assumes "cs_buffer cs = []" and "length h = 4" and "unpack_L h = Inr (length p)"
    and "p @ rest \<noteq> []"
  shows "append_bytes cs (h @ p @ rest) = (Return (Some p), cs\<lparr>cs_buffer := rest\<rparr>)"
proof -
  define b where "b = h @ p @ rest"
  have t: "take 4 b = h" and d: "drop 4 b = p @ rest"
    using assms(2) by (simp_all add: b_def)
  have l: "\<not> length b \<le> 4"
    using assms(2,4) by (cases "p @ rest") (simp_all add: b_def)
  have n: "\<not> length b < 4 + length p"
    using assms(2) by (simp add: b_def)
  have "append_bytes cs b = (Return (Some p), cs\<lparr>cs_buffer := rest\<rparr>)"
    using assms(1,3) l n by (simp add: append_bytes_def Let_def t d)
  then show ?thesis by (simp only: b_def)
qed

lemma append_bytes_two_frames:
  assumes "frame p1 = Inr f1" and "frame p2 = Inr f2" and "cs_buffer cs = []"
  shows "append_bytes cs (f1 @ f2) = (Return (Some p1), cs\<lparr>cs_buffer := f2\<rparr>)"
proof -
  from frameD [OF assms(1)] obtain h1 where
    h1: "f1 = h1 @ p1" "length h1 = 4" "unpack_L h1 = Inr (length p1)" by blast
  from frameD [OF assms(2)] obtain h2 where
    h2: "f2 = h2 @ p2" "length h2 = 4" by blast
  have "p1 @ f2 \<noteq> []" using h2 by auto
  from append_bytes_complete [OF assms(3) h1(2,3) this] show ?thesis
    using h1(1) by simp
qed

section \<open>What the operations leave unchanged\<close>

lemma remove_reader_frame:
  "remove_reader s st = (out, st') \<Longrightarrow>
   control_sessions st' = control_sessions st \<and> clients st' = clients st \<and>
   servers st' = servers st \<and> server_sessions st' = server_sessions st \<and>
   heap st' = heap st \<and> sent st' = sent st \<and> closed_socks st' = closed_socks st \<and>
   next_sock st' = next_sock st \<and> next_sid st' = next_sid st"
  by (auto simp: remove_reader_def split: option.splits if_splits)

lemma Client_disconnect_frame:
  "Client_disconnect c st = (out, c', st') \<Longrightarrow>
   control_sessions st' = control_sessions st \<and> clients st' = clients st \<and>
   servers st' = servers st \<and> server_sessions st' = server_sessions st \<and>
   heap st' = heap st \<and> sent st' = sent st"
  by (auto simp: Client_disconnect_def close_socket_def split: prod.splits outcome.splits
      dest!: remove_reader_frame)

lemma Client_destroy_frame:
  "Client_destroy c st = (out, c', st') \<Longrightarrow>
   control_sessions st' = control_sessions st \<and> clients st' = clients st \<and>
   servers st' = servers st \<and> server_sessions st' = server_sessions st \<and>
   heap st' = heap st \<and> sent st' = sent st"
  by (auto simp: Client_destroy_def split: if_splits dest!: Client_disconnect_frame)

lemma Client_connect_frame:
  "Client_connect e c host port st = (out, c', st') \<Longrightarrow>
   control_sessions st' = control_sessions st \<and> clients st' = clients st \<and>
   servers st' = servers st \<and> server_sessions st' = server_sessions st \<and>
   heap st' = heap st \<and> sent st' = sent st"
  by (auto simp: Client_connect_def Let_def add_reader_def split: outcome.splits)

lemma ServerSession_disconnect_frame:
  "ServerSession_disconnect i st = (out, st') \<Longrightarrow>
   control_sessions st' = control_sessions st \<and> clients st' = clients st \<and>
   servers st' = servers st \<and> server_sessions st' = server_sessions st \<and>
   sent st' = sent st"
  by (auto simp: ServerSession_disconnect_def close_socket_def Let_def
      split: prod.splits outcome.splits option.splits dest!: remove_reader_frame)

lemma ServerSession_destroy_frame:
  "ServerSession_destroy i st = (out, st') \<Longrightarrow>
   control_sessions st' = control_sessions st \<and> clients st' = clients st \<and>
   servers st' = servers st \<and> server_sessions st' = server_sessions st \<and>
   sent st' = sent st"
  by (auto simp: ServerSession_destroy_def split: prod.splits outcome.splits if_splits
      dest!: ServerSession_disconnect_frame)

lemma destroy_each_frame:
  "destroy_each is st = (out, st') \<Longrightarrow>
   control_sessions st' = control_sessions st \<and> clients st' = clients st \<and>
   servers st' = servers st \<and> server_sessions st' = server_sessions st \<and>
   sent st' = sent st"
proof (induction "is" arbitrary: st)
  case Nil
  then show ?case by simp
next
  case (Cons i rest)
  obtain o1 st1 where d: "ServerSession_destroy i st = (o1, st1)" by (cases "ServerSession_destroy i st")
  note f = ServerSession_destroy_frame [OF d]
  show ?case
  proof (cases o1)
    case (Return u)
    with Cons.prems d have "destroy_each rest st1 = (out, st')" by simp
    from Cons.IH [OF this] f show ?thesis by simp
  next
    case (Raise err)
    with Cons.prems d f show ?thesis by auto
  qed
qed

lemma Server_destroy_frame:
  "Server_destroy sv st = (out, sv', st') \<Longrightarrow>
   control_sessions st' = control_sessions st \<and> clients st' = clients st \<and>
   servers st' = servers st \<and> server_sessions st' = server_sessions st \<and>
   sent st' = sent st"
  by (auto simp: Server_destroy_def Let_def split: if_splits prod.splits outcome.splits
      dest!: destroy_each_frame)

lemma Server_listen_frame:
  "Server_listen e sv port st = (out, sv', st') \<Longrightarrow>
   control_sessions st' = control_sessions st \<and> clients st' = clients st \<and>
   servers st' = servers st \<and> server_sessions st' = server_sessions st \<and>
   heap st' = heap st \<and> sent st' = sent st"
  by (auto simp: Server_listen_def Let_def new_socket_def add_reader_def
      split: prod.splits outcome.splits)

lemma Server_unlisten_frame:
  "Server_unlisten sv port st = (out, sv', st') \<Longrightarrow>
   control_sessions st' = control_sessions st \<and> clients st' = clients st \<and>
   servers st' = servers st \<and> server_sessions st' = server_sessions st \<and>
   heap st' = heap st \<and> sent st' = sent st"
  by (auto simp: Server_unlisten_def close_socket_def
      split: prod.splits outcome.splits option.splits dest!: remove_reader_frame)

lemma accept_client_session_frame:
  "accept_client_session sv name st = (out, sv', st') \<Longrightarrow>
   control_sessions st' = control_sessions st \<and> clients st' = clients st \<and>
   servers st' = servers st \<and> server_sessions st' = server_sessions st \<and>
   sent st' = sent st"
  by (auto simp: accept_client_session_def Let_def ServerSession_set_name_def
      split: if_splits list.splits option.splits)

lemma handle_request_control_sessions:
  "handle_request e c m st = (out, st') \<Longrightarrow> control_sessions st' = control_sessions st"
  by (auto simp: handle_request_def handle_client_create_def handle_client_destroy_def
      handle_client_connect_def handle_client_is_connected_request_def handle_server_create_def
      handle_server_destroy_def handle_server_listen_def handle_server_unlisten_def
      handle_server_pending_accept_request_def handle_server_accept_def
      handle_server_is_connected_request_def handle_server_disconnect_def
      send_response_def Let_def Client_init_def new_socket_def
      split: json.splits sum.splits if_splits option.splits prod.splits outcome.splits bool.splits
      dest!: Client_destroy_frame Client_connect_frame Server_destroy_frame Server_listen_frame
        Server_unlisten_frame accept_client_session_frame ServerSession_disconnect_frame)

section \<open>The sample states and requests, evaluated\<close>

lemma started_eq:
  "started = \<lparr>a_port = 11011, a_socket = Some 0, control_sessions = Map.empty,
                 clients = Map.empty, servers = Map.empty, server_sessions = Map.empty,
                 heap = (\<lambda>_. blank_session), next_sid = 0, next_sock = Suc 0,
                 readers = {0}, closed_socks = {}, sent = []\<rparr>"
  by (simp add: started_def FixToolAgent_init_def sample_env_def new_socket_def sock_bind_def
      port_arg_def add_reader_def)

lemma with_control_eq:
  "with_control = \<lparr>a_port = 11011, a_socket = Some 0,
                 control_sessions = [Suc 0 \<mapsto> \<lparr>cs_socket = Suc 0, cs_buffer = []\<rparr>],
                 clients = Map.empty, servers = Map.empty, server_sessions = Map.empty,
                 heap = (\<lambda>_. blank_session), next_sid = 0, next_sock = Suc (Suc 0),
                 readers = {Suc 0, 0}, closed_socks = {}, sent = []\<rparr>"
  by (simp add: with_control_def started_eq FixToolAgent_accept_def new_socket_def
      add_reader_def ControlSession_init_def)

lemma frame_request_A: "frame request_A = Inr ([0, 0, 0, 38] @ request_A)"
  by (simp add: frame_def pack_L_def request_A_def)

lemma frame_request_B: "frame request_B = Inr ([0, 0, 0, 38] @ request_B)"
  by (simp add: frame_def pack_L_def request_B_def)

lemma loads_A: "loads sample_env request_A = Inr (JObj [(''type'', JStr ''client_create''), (''name'', JStr ''A'')])"
  by (simp add: sample_env_def sample_loads_def)

lemmas run_defs = after_request_def control_1_def handle_request_def msg_index_def msg_get_def
  send_response_def format_s_def Let_def sample_env_def
  handle_client_create_def handle_client_connect_def handle_server_create_def
  handle_server_listen_def handle_server_accept_def handle_server_unlisten_def
  Client_init_def Client_connect_def sock_connect_def port_arg_def new_socket_def add_reader_def
  Server_init_def Server_listen_def sock_bind_def bad_port_def
  acceptable_event_def Server_acceptable_def ServerSession_init_def
  accept_client_session_def pending_client_count_def ServerSession_set_name_def
  Server_unlisten_def remove_reader_def close_socket_def

lemma with_client_eq:
  "with_client =
     \<lparr>a_port = 11011, a_socket = Some 0,
      control_sessions = [1 \<mapsto> \<lparr>cs_socket = 1, cs_buffer = []\<rparr>],
      clients =
        [KStr ''A'' \<mapsto>
           \<lparr>c_name = JStr ''A'', c_comp_id = [], c_auto_heartbeat = True,
            c_auto_sequence = True, c_raw = False, c_next_send_sequence = 0,
            c_last_seen_sequence = 0, c_host = JNull, c_port = JNull, c_is_connected = False,
            c_socket = 2, c_parser = [], c_recv_queue = []\<rparr>],
      servers = Map.empty, server_sessions = Map.empty, heap = (\<lambda>_. blank_session),
      next_sid = 0, next_sock = 3, readers = {1, 0}, closed_socks = {},
      sent = [(1, ClientCreatedMessage (JStr ''A'') True [])]\<rparr>"
  by (simp add: with_client_def with_control_eq run_defs eval_nat_numeral)

lemma with_server_eq:
  "with_server =
     \<lparr>a_port = 11011, a_socket = Some 0,
      control_sessions = [1 \<mapsto> \<lparr>cs_socket = 1, cs_buffer = []\<rparr>],
      clients =
        [KStr ''A'' \<mapsto>
           \<lparr>c_name = JStr ''A'', c_comp_id = [], c_auto_heartbeat = True,
            c_auto_sequence = True, c_raw = False, c_next_send_sequence = 0,
            c_last_seen_sequence = 0, c_host = JStr ''localhost'', c_port = JInt 9000,
            c_is_connected = True, c_socket = 2, c_parser = [], c_recv_queue = []\<rparr>],
      servers =
        [KStr ''S'' \<mapsto>
           \<lparr>sv_auto_heartbeat = True, sv_auto_sequence = True, sv_raw = False,
            sv_next_send_sequence = 0, sv_last_seen_sequence = 0, sv_pending_sessions = [],
            sv_accepted_sessions = [], sv_socket = None\<rparr>],
      server_sessions = Map.empty, heap = (\<lambda>_. blank_session),
      next_sid = 0, next_sock = 3, readers = {2, 1, 0}, closed_socks = {},
      sent = [(1, ClientCreatedMessage (JStr ''A'') True []),
              (1, ClientConnectedMessage (JStr ''A'') True []),
              (1, ServerCreatedMessage (JStr ''S'') True [])]\<rparr>"
  by (simp add: with_server_def with_client_eq run_defs eval_nat_numeral)

lemma busy_eq:
  "busy =
     \<lparr>a_port = 11011, a_socket = Some 0,
      control_sessions = [1 \<mapsto> \<lparr>cs_socket = 1, cs_buffer = []\<rparr>],
      clients =
        [KStr ''A'' \<mapsto>
           \<lparr>c_name = JStr ''A'', c_comp_id = [], c_auto_heartbeat = True,
            c_auto_sequence = True, c_raw = False, c_next_send_sequence = 0,
            c_last_seen_sequence = 0, c_host = JStr ''localhost'', c_port = JInt 9000,
            c_is_connected = True, c_socket = 2, c_parser = [], c_recv_queue = []\<rparr>],
      servers =
        [KStr ''S'' \<mapsto>
           \<lparr>sv_auto_heartbeat = True, sv_auto_sequence = True, sv_raw = False,
            sv_next_send_sequence = 0, sv_last_seen_sequence = 0, sv_pending_sessions = [],
            sv_accepted_sessions = [(KStr ''x'', 0)], sv_socket = Some 3\<rparr>],
      server_sessions = [KStr ''x'' \<mapsto> Some 0],
      heap = (\<lambda>_. blank_session)
        (0 := \<lparr>ss_socket = Some 4, ss_name = JStr ''x'', ss_parser = [],
                ss_is_connected = True, ss_queue = []\<rparr>),
      next_sid = 1, next_sock = 5, readers = {4, 3, 2, 1, 0}, closed_socks = {},
      sent = [(1, ClientCreatedMessage (JStr ''A'') True []),
              (1, ClientConnectedMessage (JStr ''A'') True []),
              (1, ServerCreatedMessage (JStr ''S'') True []),
              (1, ServerListenedMessage (JStr ''S'') True []),
              (1, ServerAcceptedMessage (JStr ''S'') True [] (JStr ''x''))]\<rparr>"
  by (simp add: busy_def with_server_eq run_defs eval_nat_numeral)

lemma quiet_eq:
  "quiet =
     \<lparr>a_port = 11011, a_socket = Some 0,
      control_sessions = [1 \<mapsto> \<lparr>cs_socket = 1, cs_buffer = []\<rparr>],
      clients =
        [KStr ''A'' \<mapsto>
           \<lparr>c_name = JStr ''A'', c_comp_id = [], c_auto_heartbeat = True,
            c_auto_sequence = True, c_raw = False, c_next_send_sequence = 0,
            c_last_seen_sequence = 0, c_host = JStr ''localhost'', c_port = JInt 9000,
            c_is_connected = True, c_socket = 2, c_parser = [], c_recv_queue = []\<rparr>],
      servers =
        [KStr ''S'' \<mapsto>
           \<lparr>sv_auto_heartbeat = True, sv_auto_sequence = True, sv_raw = False,
            sv_next_send_sequence = 0, sv_last_seen_sequence = 0, sv_pending_sessions = [],
            sv_accepted_sessions = [(KStr ''x'', 0)], sv_socket = None\<rparr>],
      server_sessions = [KStr ''x'' \<mapsto> Some 0],
      heap = (\<lambda>_. blank_session)
        (0 := \<lparr>ss_socket = Some 4, ss_name = JStr ''x'', ss_parser = [],
                ss_is_connected = True, ss_queue = []\<rparr>),
      next_sid = 1, next_sock = 5, readers = {4, 2, 1, 0}, closed_socks = {3},
      sent = [(1, ClientCreatedMessage (JStr ''A'') True []),
              (1, ClientConnectedMessage (JStr ''A'') True []),
              (1, ServerCreatedMessage (JStr ''S'') True []),
              (1, ServerListenedMessage (JStr ''S'') True []),
              (1, ServerAcceptedMessage (JStr ''S'') True [] (JStr ''x'')),
              (1, ServerUnlistenedMessage (JStr ''S'') True [])]\<rparr>"
  by (simp add: quiet_def busy_eq run_defs insert_Diff_if eval_nat_numeral)

section \<open>The claims about the frame codec\<close>

text \<open>
  C1 (partial-frame reassembly). The claim: one frame, cut at a byte boundary and fed
  across two or more \<^verbatim>\<open>append_bytes\<close> calls, yields exactly one payload. The code
  compares the length of the \<^emph>\<open>argument\<close> of the call with \<open>4 + L\<close>, not the length of
  the accumulated buffer. So whenever the bytes of one frame arrive in chunks that are
  each shorter than the frame, no call returns a payload: the calls yield nothing in
  total, and the whole frame stays in the buffer.
\<close>

theorem split_frame_yields_no_payload:
  assumes "frame p = Inr f"
    and "concat chunks = f"
    and "\<forall>c \<in> set chunks. length c < length f"
  shows "feed (ControlSession_init s) chunks = (Return [], \<lparr>cs_socket = s, cs_buffer = f\<rparr>)"
proof -
  from frameD [OF assms(1)] obtain h where
    h: "f = h @ p" "length h = 4" "unpack_L h = Inr (length p)" by blast
  have "prefix (cs_buffer (ControlSession_init s) @ concat chunks) (h @ p)"
    using assms(2) h(1) by (simp add: ControlSession_init_def)
  moreover have "\<forall>c \<in> set chunks. length c < 4 + length p"
    using assms(3) h(1,2) by simp
  ultimately show ?thesis
    using feed_short_chunks [OF h(2,3), of "ControlSession_init s" chunks p] assms(2)
    by (simp add: ControlSession_init_def)
qed

text \<open>The frame of the one-byte payload \<open>[97]\<close>, cut after its second byte.\<close>

theorem split_frame_yields_no_payload_witness:
  "frame [97] = Inr [0, 0, 0, 1, 97] \<and>
   feed (ControlSession_init 7) [[0, 0], [0, 1, 97]]
     = (Return [], \<lparr>cs_socket = 7, cs_buffer = [0, 0, 0, 1, 97]\<rparr>)"
proof -
  have f: "frame [97] = Inr [0, 0, 0, 1, 97]"
    by (simp add: frame_def pack_L_def)
  have "feed (ControlSession_init 7) [[0, 0], [0, 1, 97]]
          = (Return [], \<lparr>cs_socket = 7, cs_buffer = [0, 0, 0, 1, 97]\<rparr>)"
    by (rule split_frame_yields_no_payload [OF f]) simp_all
  with f show ?thesis by simp
qed

text \<open>
  C3 (round trip), as the code has it. For every non-empty payload whose length fits the
  32-bit prefix, the frame that \<^verbatim>\<open>ControlSession.send\<close> writes, fed in one
  \<^verbatim>\<open>append_bytes\<close> call to a session with an empty buffer, gives back exactly that
  payload and leaves the buffer empty.
\<close>

theorem roundtrip_nonempty_payload:
  assumes "p \<noteq> []" and "length p < 2 ^ 32"
  shows "\<exists>f. frame p = Inr f \<and>
             append_bytes (ControlSession_init s) f = (Return (Some p), ControlSession_init s)"
proof -
  from frame_defined [OF assms(2)] obtain f where f: "frame p = Inr f" by blast
  have "append_bytes (ControlSession_init s) f = (Return (Some p), ControlSession_init s)"
    by (rule append_bytes_whole_frame [OF assms(1) f]) (simp add: ControlSession_init_def)
  with f show ?thesis by blast
qed

text \<open>The payload \<open>[97]\<close> makes the round trip.\<close>

theorem roundtrip_nonempty_payload_witness:
  "frame [97] = Inr [0, 0, 0, 1, 97] \<and>
   append_bytes (ControlSession_init 7) [0, 0, 0, 1, 97]
     = (Return (Some [97]), ControlSession_init 7)"
proof -
  have f: "frame [97] = Inr [0, 0, 0, 1, 97]"
    by (simp add: frame_def pack_L_def)
  have "\<exists>f. frame [97] = Inr f \<and>
          append_bytes (ControlSession_init 7) f = (Return (Some [97]), ControlSession_init 7)"
    by (rule roundtrip_nonempty_payload) simp_all
  with f show ?thesis by auto
qed

text \<open>
  The empty payload does not make the round trip: its frame is the 4 header bytes, and
  \<^verbatim>\<open>append_bytes\<close> returns \<^verbatim>\<open>None\<close> while the buffer holds at most 4 bytes.
\<close>

theorem roundtrip_empty_payload_counterexample:
  "frame [] = Inr [0, 0, 0, 0] \<and>
   append_bytes (ControlSession_init 7) [0, 0, 0, 0]
     = (Return None, \<lparr>cs_socket = 7, cs_buffer = [0, 0, 0, 0]\<rparr>)"
  by (simp add: frame_def pack_L_def append_bytes_def ControlSession_init_def)

section \<open>The claim about batched frames\<close>

text \<open>
  C2 (multi-frame batching). The claim: two complete frames delivered in one read are
  both decoded and handled, in order. The loop of \<^verbatim>\<open>FixToolAgent.readable\<close> ends after
  its first pass (\<^verbatim>\<open>payload = None  # FIXME: deal with multiple messages\<close>). So for
  every pair of frames read at once on a control session with an empty buffer, the read
  does exactly what decoding and handling the first payload does: the second payload is
  neither decoded nor handled, and its frame is left in the buffer of the session.
\<close>

theorem batched_frames_only_first_handled:
  assumes "control_sessions st sock = Some cs" and "cs_buffer cs = []"
    and "frame p1 = Inr f1" and "frame p2 = Inr f2"
  shows "FixToolAgent_readable e sock (f1 @ f2) st =
           (let cs1 = cs\<lparr>cs_buffer := f2\<rparr>;
                st1 = st\<lparr>control_sessions := (control_sessions st)(sock \<mapsto> cs1)\<rparr>
            in case loads e p1 of
                 Inl err \<Rightarrow> (Raise err, st1)
               | Inr message \<Rightarrow> handle_request e cs1 message st1) \<and>
         control_sessions (snd (FixToolAgent_readable e sock (f1 @ f2) st)) sock
           = Some (cs\<lparr>cs_buffer := f2\<rparr>)"
proof -
  let ?cs1 = "cs\<lparr>cs_buffer := f2\<rparr>"
  let ?st1 = "st\<lparr>control_sessions := (control_sessions st)(sock \<mapsto> ?cs1)\<rparr>"
  from frameD [OF assms(3)] obtain h1 where "f1 = h1 @ p1" "length h1 = 4" by blast
  then have ne: "length (f1 @ f2) \<noteq> 0" by simp
  have r: "FixToolAgent_readable e sock (f1 @ f2) st = dispatch_loop e ?cs1 (Some p1) ?st1"
    unfolding FixToolAgent_readable_def
    by (simp only: assms(1) ne append_bytes_two_frames [OF assms(3,4,2)] option.case if_False
        prod.case outcome.case)
  show ?thesis
  proof (cases "loads e p1")
    case (Inl err)
    with r show ?thesis by simp
  next
    case (Inr message)
    obtain o2 st2 where h: "handle_request e ?cs1 message ?st1 = (o2, st2)"
      by (cases "handle_request e ?cs1 message ?st1")
    from handle_request_control_sessions [OF h]
    have c: "control_sessions st2 = (control_sessions st)(sock \<mapsto> ?cs1)" by simp
    have "dispatch_loop e ?cs1 (Some p1) ?st1 = (o2, st2)"
      using Inr h by (cases o2) simp_all
    with r c Inr h show ?thesis by simp
  qed
qed

text \<open>
  Two \<^verbatim>\<open>client_create\<close> requests, for \<^verbatim>\<open>"A"\<close> and for \<^verbatim>\<open>"B"\<close>, framed and read
  at once on the control connection of a fresh agent: one response goes out, only client
  \<^verbatim>\<open>"A"\<close> exists afterwards, and the frame of the second request is still in the buffer.
\<close>

theorem batched_frames_only_first_handled_witness:
  "frame request_A = Inr ([0, 0, 0, 38] @ request_A) \<and>
   frame request_B = Inr ([0, 0, 0, 38] @ request_B) \<and>
   (let (out, st') =
          FixToolAgent_readable sample_env 1
            (([0, 0, 0, 38] @ request_A) @ ([0, 0, 0, 38] @ request_B)) with_control
    in out = Return () \<and>
       sent st' = [(1, ClientCreatedMessage (JStr ''A'') True [])] \<and>
       dom (clients st') = {KStr ''A''} \<and>
       map_option cs_buffer (control_sessions st' 1) = Some ([0, 0, 0, 38] @ request_B))"
proof -
  have cs: "control_sessions with_control 1 = Some \<lparr>cs_socket = 1, cs_buffer = []\<rparr>"
    by (simp add: with_control_eq)
  have e: "cs_buffer \<lparr>cs_socket = 1, cs_buffer = []\<rparr> = []"
    by simp
  note t = batched_frames_only_first_handled [OF cs e frame_request_A frame_request_B,
      of sample_env]
  show ?thesis
    unfolding t [THEN conjunct1]
    by (simp add: frame_request_A frame_request_B loads_A with_control_eq handle_request_def
        msg_index_def handle_client_create_def msg_get_def send_response_def format_s_def
        Client_init_def new_socket_def Let_def)
qed

section \<open>The claims about the endpoints and the handlers\<close>

subsection \<open>Helper facts\<close>

lemma port_arg_connect:
  "port_arg p = Inl perr \<Longrightarrow> \<exists>err. sock_connect e fd host p st = Raise err"
  by (cases host) (auto simp: sock_connect_def)

lemma port_arg_cases:
  "(\<exists>perr. port_arg p = Inl perr) =
     (case p of JInt n \<Rightarrow> n < 0 \<or> 65535 < n | JBool b \<Rightarrow> False | _ \<Rightarrow> True)"
  by (cases p) (auto simp: port_arg_def)

lemma server_listen_validates_port:
  assumes "msg_index m ''name'' = Inr name" and "key_of name = Some k"
    and "servers st k = Some sv" and "bad_port (msg_get m ''port'') = Inr True"
  shows "handle_server_listen e control m st =
           (Return (), send_response control
              (ServerListenedMessage name False ''Bad or missing port'') st)"
    and "handle_server_unlisten control m st =
           (Return (), send_response control
              (ServerUnlistenedMessage name False ''Bad or missing port'') st)"
  using assms by (simp_all add: handle_server_listen_def handle_server_unlisten_def)

lemma server_listen_non_numeric_port:
  assumes "msg_index m ''name'' = Inr name" and "key_of name = Some k"
    and "servers st k = Some sv"
    and "msg_get m ''port'' = JStr s \<or> msg_get m ''port'' = JList l \<or> msg_get m ''port'' = JObj ob"
  shows "handle_server_listen e control m st = (Raise TypeError, st)"
    and "handle_server_unlisten control m st = (Raise TypeError, st)"
  using assms by (auto simp: handle_server_listen_def handle_server_unlisten_def bad_port_def)

lemma accept_nothing_pending:
  assumes "msg_index m ''name'' = Inr name" and "key_of name = Some k"
    and "servers st k = Some sv" and "sv_pending_sessions sv = []"
    and "key_of (msg_get m ''session_name'') = Some sk"
  shows "handle_server_accept control m st =
           (Return (),
            st\<lparr>servers := (servers st)(k \<mapsto> sv),
               server_sessions := (server_sessions st)(sk \<mapsto> None),
               sent := sent st @ [(cs_socket control,
                  ServerAcceptedMessage name True [] (msg_get m ''session_name''))]\<rparr>)"
  using assms
  by (simp add: handle_server_accept_def accept_client_session_def pending_client_count_def
      send_response_def Let_def)

lemma already_exists_sublist:
  "sublist ''already exists'' (format_s ''Client '' '' already exists'' name)"
proof -
  have "format_s ''Client '' '' already exists'' name
        = (''Client '' @ py_str name @ '' '') @ ''already exists'' @ []"
    by (simp add: format_s_def)
  then show ?thesis by (simp only: sublist_appendI)
qed

lemma create_existing:
  assumes "msg_get m ''name'' = name" and "key_of name = Some k" and "clients st k \<noteq> None"
  shows "handle_client_create control m st =
           (Return (), st\<lparr>sent := sent st @ [(cs_socket control,
               ClientCreatedMessage name False (format_s ''Client '' '' already exists'' name))]\<rparr>)"
  using assms by (auto simp: handle_client_create_def send_response_def)

lemma create_new:
  assumes "msg_get m ''name'' = name" and "key_of name = Some k" and "clients st k = None"
  shows "\<exists>st'. handle_client_create control m st = (Return (), st') \<and>
           sent st' = sent st @ [(cs_socket control, ClientCreatedMessage name True [])] \<and>
           (\<exists>c. clients st' = (clients st)(k \<mapsto> c) \<and> \<not> c_is_connected c)"
proof -
  obtain c st1 where i: "Client_init name st = (c, st1)" by (cases "Client_init name st")
  then have c: "\<not> c_is_connected c" "clients st1 = clients st" "sent st1 = sent st"
    by (auto simp: Client_init_def new_socket_def)
  have "handle_client_create control m st =
          (Return (), send_response control (ClientCreatedMessage name True [])
             (st1\<lparr>clients := (clients st1)(k \<mapsto> c)\<rparr>))"
    using assms i by (simp add: handle_client_create_def)
  with c show ?thesis by (auto simp: send_response_def)
qed

lemma create_binds:
  assumes "msg_get m ''name'' = name" and "key_of name = Some k"
  shows "\<exists>st'. handle_client_create control m st = (Return (), st') \<and> clients st' k \<noteq> None"
proof (cases "clients st k")
  case None
  from create_new [OF assms None, of control] show ?thesis by auto
next
  case (Some c)
  then have "clients st k \<noteq> None" by simp
  from create_existing [OF assms this, of control] Some show ?thesis by simp
qed

lemma destroy_unconnected:
  assumes "msg_get m ''name'' = name" and "key_of name = Some k"
    and "clients st k = Some c" and "\<not> c_is_connected c"
  shows "handle_client_destroy control m st =
           (Return (),
            st\<lparr>clients := (clients st)(k := None),
               sent := sent st @ [(cs_socket control, ClientDestroyedMessage name True [])]\<rparr>)"
  using assms
  by (simp add: handle_client_destroy_def Client_destroy_def send_response_def)

lemma fresh_client_A:
  "Client_init (JStr ''A'') with_control =
     (\<lparr>c_name = JStr ''A'', c_comp_id = [], c_auto_heartbeat = True,
       c_auto_sequence = True, c_raw = False, c_next_send_sequence = 0,
       c_last_seen_sequence = 0, c_host = JNull, c_port = JNull, c_is_connected = False,
       c_socket = 2, c_parser = [], c_recv_queue = []\<rparr>,
      with_control\<lparr>next_sock := 3\<rparr>)"
  by (simp add: Client_init_def new_socket_def with_control_eq eval_nat_numeral)

lemma ServerSession_disconnect_flag:
  "ServerSession_disconnect j st = (out, st') \<Longrightarrow>
   \<not> ss_is_connected (heap st i) \<Longrightarrow> \<not> ss_is_connected (heap st' i)"
  by (auto simp: ServerSession_disconnect_def remove_reader_def close_socket_def Let_def
      split: option.splits if_splits)

lemma ServerSession_disconnect_queue:
  "ServerSession_disconnect j st = (out, st') \<Longrightarrow> ss_queue (heap st' i) = ss_queue (heap st i)"
  by (auto simp: ServerSession_disconnect_def remove_reader_def close_socket_def Let_def
      split: option.splits if_splits)

lemma ServerSession_disconnect_done:
  "ServerSession_disconnect i st = (Return (), st') \<Longrightarrow> \<not> ss_is_connected (heap st' i)"
  by (auto simp: ServerSession_disconnect_def remove_reader_def close_socket_def Let_def
      split: option.splits if_splits)

lemma ServerSession_destroy_keeps_destroyed:
  assumes "ServerSession_destroy j st = (out, st')" and "destroyed st i"
  shows "destroyed st' i"
proof (cases "ss_is_connected (heap st j)")
  case False
  with assms show ?thesis by (auto simp: ServerSession_destroy_def destroyed_def split: if_splits)
next
  case True
  obtain o1 st1 where d: "ServerSession_disconnect j st = (o1, st1)"
    by (cases "ServerSession_disconnect j st")
  from ServerSession_disconnect_flag [OF d] ServerSession_disconnect_queue [OF d, of i] assms(2)
  have "destroyed st1 i" by (simp add: destroyed_def)
  with assms(1) True d show ?thesis
    by (cases o1) (auto simp: ServerSession_destroy_def destroyed_def split: if_splits)
qed

lemma ServerSession_destroy_done:
  assumes "ServerSession_destroy i st = (Return (), st')"
  shows "destroyed st' i"
proof (cases "ss_is_connected (heap st i)")
  case False
  with assms show ?thesis by (auto simp: ServerSession_destroy_def destroyed_def split: if_splits)
next
  case True
  obtain o1 st1 where d: "ServerSession_disconnect i st = (o1, st1)"
    by (cases "ServerSession_disconnect i st")
  with assms True have o1: "o1 = Return ()"
    by (cases o1) (auto simp: ServerSession_destroy_def)
  from ServerSession_disconnect_done [OF d [unfolded o1]] assms True d o1
  show ?thesis by (auto simp: ServerSession_destroy_def destroyed_def split: if_splits)
qed

lemma destroy_each_keeps_destroyed:
  "destroy_each js st = (out, st') \<Longrightarrow> destroyed st i \<Longrightarrow> destroyed st' i"
proof (induction js arbitrary: st)
  case Nil
  then show ?case by simp
next
  case (Cons j rest)
  obtain o1 st1 where d: "ServerSession_destroy j st = (o1, st1)"
    by (cases "ServerSession_destroy j st")
  from ServerSession_destroy_keeps_destroyed [OF d Cons.prems(2)] have k: "destroyed st1 i" .
  show ?case
  proof (cases o1)
    case (Return u)
    with Cons.prems(1) d have "destroy_each rest st1 = (out, st')" by simp
    from Cons.IH [OF this k] show ?thesis .
  next
    case (Raise err)
    with Cons.prems(1) d k show ?thesis by auto
  qed
qed

lemma destroy_each_done:
  "destroy_each js st = (Return (), st') \<Longrightarrow> i \<in> set js \<Longrightarrow> destroyed st' i"
proof (induction js arbitrary: st)
  case Nil
  then show ?case by simp
next
  case (Cons j rest)
  obtain o1 st1 where d: "ServerSession_destroy j st = (o1, st1)"
    by (cases "ServerSession_destroy j st")
  with Cons.prems(1) have o1: "o1 = Return ()" by (cases o1) auto
  with Cons.prems(1) d have r: "destroy_each rest st1 = (Return (), st')" by simp
  show ?case
  proof (cases "i = j")
    case True
    from ServerSession_destroy_done [OF d [unfolded o1]] have "destroyed st1 i"
      by (simp add: True)
    from destroy_each_keeps_destroyed [OF r this] show ?thesis .
  next
    case False
    with Cons.prems(2) have "i \<in> set rest" by simp
    from Cons.IH [OF r this] show ?thesis .
  qed
qed

lemma Server_destroy_done:
  assumes "Server_destroy sv st = (Return (), sv', st')"
    and "i \<in> snd ` set (sv_accepted_sessions sv)"
  shows "destroyed st' i"
proof -
  from assms(1) have idle: "sv_socket sv = None"
    by (auto simp: Server_destroy_def split: if_splits)
  obtain o1 st1 where p: "destroy_each (sv_pending_sessions sv) st = (o1, st1)"
    by (cases "destroy_each (sv_pending_sessions sv) st")
  with assms(1) idle have o1: "o1 = Return ()"
    by (cases o1) (auto simp: Server_destroy_def)
  obtain o2 st2 where a: "destroy_each (map snd (sv_accepted_sessions sv)) st1 = (o2, st2)"
    by (cases "destroy_each (map snd (sv_accepted_sessions sv)) st1")
  with assms(1) idle p o1 have o2: "o2 = Return ()" and st2: "st2 = st'"
    by (cases o2; auto simp: Server_destroy_def Let_def)+
  from destroy_each_done [OF a [unfolded o2 st2]] assms(2) show ?thesis by simp
qed

lemma Server_destroy_listening:
  "sv_socket sv \<noteq> None \<Longrightarrow> Server_destroy sv st = (Raise TypeError, sv, st)"
  by (simp add: Server_destroy_def)

lemma sessions_soundD:
  assumes "sessions_sound st js" and "j \<in> set js" and "ss_is_connected (heap st j)"
  obtains fd where "ss_socket (heap st j) = Some fd" and "fd \<notin> closed_socks st"
    and "\<And>j'. j' \<in> set js \<Longrightarrow> j' \<noteq> j \<Longrightarrow> ss_is_connected (heap st j') \<Longrightarrow>
           ss_socket (heap st j') \<noteq> Some fd"
  using assms unfolding sessions_sound_def by blast

lemma ServerSession_destroy_sound:
  assumes "sessions_sound st (j # js)"
  shows "\<exists>st'. ServerSession_destroy j st = (Return (), st') \<and> sessions_sound st' js"
proof (cases "ss_is_connected (heap st j)")
  case False
  let ?st' = "st\<lparr>heap := (heap st)(j := (heap st j)\<lparr>ss_queue := []\<rparr>)\<rparr>"
  have d: "ServerSession_destroy j st = (Return (), ?st')"
    using False by (simp add: ServerSession_destroy_def)
  have "sessions_sound ?st' js"
    unfolding sessions_sound_def
  proof (intro ballI impI)
    fix i assume i: "i \<in> set js" and c: "ss_is_connected (heap ?st' i)"
    from c False have ij: "i \<noteq> j" by (auto split: if_splits)
    with c have ci: "ss_is_connected (heap st i)" by simp
    from i have i': "i \<in> set (j # js)" by simp
    from sessions_soundD [OF assms i' ci] obtain fi where
      fi: "ss_socket (heap st i) = Some fi" "fi \<notin> closed_socks st"
      and oi: "\<And>j'. j' \<in> set (j # js) \<Longrightarrow> j' \<noteq> i \<Longrightarrow> ss_is_connected (heap st j') \<Longrightarrow>
                 ss_socket (heap st j') \<noteq> Some fi"
      by blast
    have "\<forall>j' \<in> set js. j' \<noteq> i \<and> ss_is_connected (heap ?st' j') \<longrightarrow>
            ss_socket (heap ?st' j') \<noteq> Some fi"
      using oi False by (auto split: if_splits)
    with fi ij show "\<exists>fd'. ss_socket (heap ?st' i) = Some fd' \<and> fd' \<notin> closed_socks ?st' \<and>
              (\<forall>j' \<in> set js. j' \<noteq> i \<and> ss_is_connected (heap ?st' j') \<longrightarrow>
                 ss_socket (heap ?st' j') \<noteq> Some fd')"
      by simp
  qed
  with d show ?thesis by blast
next
  case True
  have j': "j \<in> set (j # js)" by simp
  from sessions_soundD [OF assms j' True] obtain fd where
    fd: "ss_socket (heap st j) = Some fd" "fd \<notin> closed_socks st"
    and others: "\<And>j'. j' \<in> set (j # js) \<Longrightarrow> j' \<noteq> j \<Longrightarrow> ss_is_connected (heap st j') \<Longrightarrow>
                 ss_socket (heap st j') \<noteq> Some fd"
    by blast
  let ?st' = "st\<lparr>readers := readers st - {fd}, closed_socks := insert fd (closed_socks st),
      heap := (heap st)(j := (heap st j)\<lparr>ss_socket := None, ss_is_connected := False,
                                          ss_queue := []\<rparr>)\<rparr>"
  have d: "ServerSession_destroy j st = (Return (), ?st')"
    using True fd
    by (simp add: ServerSession_destroy_def ServerSession_disconnect_def remove_reader_def
        close_socket_def Let_def)
  have "sessions_sound ?st' js"
    unfolding sessions_sound_def
  proof (intro ballI impI)
    fix i assume i: "i \<in> set js" and c: "ss_is_connected (heap ?st' i)"
    from c have ij: "i \<noteq> j" by (auto split: if_splits)
    with c have ci: "ss_is_connected (heap st i)" by simp
    from i have i': "i \<in> set (j # js)" by simp
    from sessions_soundD [OF assms i' ci] obtain fi where
      fi: "ss_socket (heap st i) = Some fi" "fi \<notin> closed_socks st"
      and oi: "\<And>j'. j' \<in> set (j # js) \<Longrightarrow> j' \<noteq> i \<Longrightarrow> ss_is_connected (heap st j') \<Longrightarrow>
                 ss_socket (heap st j') \<noteq> Some fi"
      by blast
    from others [OF i' ij ci] fi have ne: "fi \<noteq> fd" by simp
    have "\<forall>j' \<in> set js. j' \<noteq> i \<and> ss_is_connected (heap ?st' j') \<longrightarrow>
            ss_socket (heap ?st' j') \<noteq> Some fi"
      using oi by (auto split: if_splits)
    with fi ij ne show "\<exists>fd'. ss_socket (heap ?st' i) = Some fd' \<and> fd' \<notin> closed_socks ?st' \<and>
              (\<forall>j' \<in> set js. j' \<noteq> i \<and> ss_is_connected (heap ?st' j') \<longrightarrow>
                 ss_socket (heap ?st' j') \<noteq> Some fd')"
      by simp
  qed
  with d show ?thesis by blast
qed

lemma destroy_each_sound:
  "sessions_sound st (js @ ks) \<Longrightarrow>
   \<exists>st'. destroy_each js st = (Return (), st') \<and> sessions_sound st' ks"
proof (induction js arbitrary: st)
  case Nil
  then show ?case by simp
next
  case (Cons j js)
  from ServerSession_destroy_sound [of st j "js @ ks"] Cons.prems obtain st1 where
    1: "ServerSession_destroy j st = (Return (), st1)" "sessions_sound st1 (js @ ks)" by auto
  from Cons.IH [OF 1(2)] 1(1) show ?case by auto
qed

lemma Server_destroy_completes:
  assumes "sv_socket sv = None"
    and "sessions_sound st (sv_pending_sessions sv @ map snd (sv_accepted_sessions sv))"
  shows "\<exists>sv' st'. Server_destroy sv st = (Return (), sv', st')"
proof -
  from destroy_each_sound [OF assms(2)] obtain st1 where
    1: "destroy_each (sv_pending_sessions sv) st = (Return (), st1)"
       "sessions_sound st1 (map snd (sv_accepted_sessions sv))" by blast
  from destroy_each_sound [of st1 "map snd (sv_accepted_sessions sv)" "[]"] 1(2) obtain st2 where
    2: "destroy_each (map snd (sv_accepted_sessions sv)) st1 = (Return (), st2)" by auto
  from assms(1) 1(1) 2 show ?thesis by (simp add: Server_destroy_def)
qed

lemma handle_server_destroy_completes:
  assumes "key_of (msg_get m ''name'') = Some k" and "servers st k = Some sv"
    and "sv_socket sv = None"
    and "sessions_sound st (sv_pending_sessions sv @ map snd (sv_accepted_sessions sv))"
  shows "\<exists>st'. handle_server_destroy control m st = (Return (), st')"
proof -
  from Server_destroy_completes [OF assms(3,4)] obtain sv' st1 where
    "Server_destroy sv st = (Return (), sv', st1)" by blast
  with assms(1,2) show ?thesis by (simp add: handle_server_destroy_def Let_def)
qed

subsection \<open>C5: a peer closing an endpoint\<close>

text \<open>
  C5. The claim: a zero-length read on the socket of a connected \<^verbatim>\<open>Client\<close> or
  \<^verbatim>\<open>ServerSession\<close> makes the entity disconnected and removes its reader from the event
  loop, and sends no response. \<^verbatim>\<open>Client.readable\<close> does so (it calls
  \<^verbatim>\<open>disconnect\<close>). \<^verbatim>\<open>ServerSession.readable\<close> only clears the flag: the socket of the
  session stays registered with the event loop, is not closed and stays in the session.
  Neither sends a response.
\<close>

theorem peer_close_session_stays_registered:
  assumes "c_socket c \<in> readers st"
    and "ss_socket (heap st i) = Some fd" and "fd \<in> readers st"
  shows "Client_readable e c [] st =
           Some (Return (), c\<lparr>c_is_connected := False\<rparr>,
                 st\<lparr>readers := readers st - {c_socket c},
                    closed_socks := insert (c_socket c) (closed_socks st)\<rparr>) \<and>
         (\<exists>st'. ServerSession_readable e i [] st = Some (Return (), st') \<and>
                \<not> ss_is_connected (heap st' i) \<and>
                ss_socket (heap st' i) = Some fd \<and> fd \<in> readers st' \<and>
                closed_socks st' = closed_socks st \<and> sent st' = sent st)"
  using assms
  by (simp add: Client_readable_def Client_disconnect_def remove_reader_def close_socket_def
      ServerSession_readable_def)

text \<open>In the sample run, client \<^verbatim>\<open>"A"\<close> (socket 2) and session 0 (socket 4) are both
  connected and registered; after a zero-length read socket 2 is no longer registered,
  and socket 4 still is.\<close>

theorem peer_close_session_stays_registered_witness:
  "(case clients busy (KStr ''A'') of
      None \<Rightarrow> False
    | Some c \<Rightarrow>
        c_is_connected c \<and> c_socket c = 2 \<and> 2 \<in> readers busy \<and>
        (case Client_readable sample_env c [] busy of
           None \<Rightarrow> False
         | Some (out, c', st') \<Rightarrow>
             out = Return () \<and> \<not> c_is_connected c' \<and> 2 \<notin> readers st' \<and> sent st' = sent busy)) \<and>
   ss_is_connected (heap busy 0) \<and> ss_socket (heap busy 0) = Some 4 \<and> 4 \<in> readers busy \<and>
   (case ServerSession_readable sample_env 0 [] busy of
      None \<Rightarrow> False
    | Some (out, st') \<Rightarrow>
        out = Return () \<and> \<not> ss_is_connected (heap st' 0) \<and>
        ss_socket (heap st' 0) = Some 4 \<and> 4 \<in> readers st' \<and> 4 \<notin> closed_socks st' \<and>
        sent st' = sent busy)"
proof -
  obtain c where c: "clients busy (KStr ''A'') = Some c" "c_socket c = 2" "c_is_connected c"
    by (simp add: busy_eq)
  have r: "c_socket c \<in> readers busy" "ss_socket (heap busy 0) = Some 4" "4 \<in> readers busy"
    using c by (simp_all add: busy_eq)
  from peer_close_session_stays_registered [OF r, of sample_env] c show ?thesis
    by (auto simp: busy_eq)
qed

subsection \<open>C6: validation of the port\<close>

text \<open>
  C6. The claim: each of \<^verbatim>\<open>client_connect\<close>, \<^verbatim>\<open>server_listen\<close> and
  \<^verbatim>\<open>server_unlisten\<close> answers a port that is missing, not an integer or outside
  0..65535 with a failure response and changes nothing. \<^verbatim>\<open>handle_server_listen\<close> and
  \<^verbatim>\<open>handle_server_unlisten\<close> test the port (\<open>server_listen_validates_port\<close>);
  \<^verbatim>\<open>handle_client_connect\<close> has no such test. For an existing client and every such
  port (\<open>port_arg\<close> rejects exactly these, see \<open>port_arg_cases\<close>), it stores the host and
  the port of the request in the client, then \<^verbatim>\<open>socket.connect\<close> raises: the handler
  raises, the client has been changed, and no response is sent.
\<close>

theorem client_connect_skips_port_validation:
  assumes "key_of (msg_get m ''name'') = Some k" and "clients st k = Some c"
    and "port_arg (msg_get m ''port'') = Inl perr"
  shows "\<exists>err. handle_client_connect e control m st =
           (Raise err,
            st\<lparr>clients := (clients st)(k \<mapsto>
                  c\<lparr>c_host := msg_get m ''host'', c_port := msg_get m ''port''\<rparr>)\<rparr>)"
proof -
  from port_arg_connect [OF assms(3)] obtain err where
    "sock_connect e (c_socket c) (msg_get m ''host'') (msg_get m ''port'') st = Raise err"
    by blast
  then show ?thesis
    using assms(1,2) by (simp add: handle_client_connect_def Client_connect_def Let_def)
qed

text \<open>Connecting client \<^verbatim>\<open>"A"\<close> of the sample run to port 70000.\<close>

theorem client_connect_skips_port_validation_witness:
  "port_arg (JInt 70000) = Inl OverflowError \<and>
   handle_client_connect sample_env control_1
     [(''type'', JStr ''client_connect''), (''name'', JStr ''A''),
      (''host'', JStr ''localhost''), (''port'', JInt 70000)] with_client
   = (Raise OverflowError,
      with_client\<lparr>clients := (clients with_client)(KStr ''A'' \<mapsto>
         \<lparr>c_name = JStr ''A'', c_comp_id = [], c_auto_heartbeat = True,
          c_auto_sequence = True, c_raw = False, c_next_send_sequence = 0,
          c_last_seen_sequence = 0, c_host = JStr ''localhost'', c_port = JInt 70000,
          c_is_connected = False, c_socket = 2, c_parser = [], c_recv_queue = []\<rparr>)\<rparr>) \<and>
   sent (snd (handle_client_connect sample_env control_1
     [(''type'', JStr ''client_connect''), (''name'', JStr ''A''),
      (''host'', JStr ''localhost''), (''port'', JInt 70000)] with_client)) = sent with_client"
proof -
  let ?m = "[(''type'', JStr ''client_connect''), (''name'', JStr ''A''),
      (''host'', JStr ''localhost''), (''port'', JInt 70000)]"
  have k: "key_of (msg_get ?m ''name'') = Some (KStr ''A'')"
    by (simp add: msg_get_def)
  have c: "clients with_client (KStr ''A'') = Some
         \<lparr>c_name = JStr ''A'', c_comp_id = [], c_auto_heartbeat = True,
          c_auto_sequence = True, c_raw = False, c_next_send_sequence = 0,
          c_last_seen_sequence = 0, c_host = JNull, c_port = JNull,
          c_is_connected = False, c_socket = 2, c_parser = [], c_recv_queue = []\<rparr>"
    by (simp add: with_client_eq)
  have b: "port_arg (msg_get ?m ''port'') = Inl OverflowError"
    by (simp add: msg_get_def port_arg_def)
  from client_connect_skips_port_validation [OF k c b, of sample_env control_1]
  obtain err where r: "handle_client_connect sample_env control_1 ?m with_client =
           (Raise err,
            with_client\<lparr>clients := (clients with_client)(KStr ''A'' \<mapsto>
         \<lparr>c_name = JStr ''A'', c_comp_id = [], c_auto_heartbeat = True,
          c_auto_sequence = True, c_raw = False, c_next_send_sequence = 0,
          c_last_seen_sequence = 0, c_host = JStr ''localhost'', c_port = JInt 70000,
          c_is_connected = False, c_socket = 2, c_parser = [], c_recv_queue = []\<rparr>)\<rparr>)"
    by (auto simp: msg_get_def)
  have "fst (handle_client_connect sample_env control_1 ?m with_client) = Raise OverflowError"
    by (simp add: with_client_eq handle_client_connect_def msg_get_def Client_connect_def
        sock_connect_def port_arg_def Let_def)
  with r have "err = OverflowError" by simp
  with r show ?thesis by (simp add: port_arg_def)
qed

subsection \<open>C4 and C9: accepting when nothing is pending\<close>

text \<open>
  C4 (accept-empty), as the code has it. For every \<^verbatim>\<open>server_accept\<close> request that names
  an existing server with no pending connection (and carries a hashable session name, or
  none), the handler returns normally and sends one response with success true, an empty
  reason and the session name of the request, whatever it is.
\<close>

theorem accept_with_nothing_pending_echoes_session_name:
  assumes "msg_index m ''name'' = Inr name" and "key_of name = Some k"
    and "servers st k = Some sv" and "pending_client_count sv = 0"
    and "key_of (msg_get m ''session_name'') = Some sk"
  shows "\<exists>st'. handle_server_accept control m st = (Return (), st') \<and>
           sent st' = sent st @ [(cs_socket control,
              ServerAcceptedMessage name True [] (msg_get m ''session_name''))]"
proof -
  from assms(4) have "sv_pending_sessions sv = []" by (simp add: pending_client_count_def)
  from accept_nothing_pending [OF assms(1,2,3) this assms(5)] show ?thesis by simp
qed

text \<open>Server \<^verbatim>\<open>"S"\<close> of the sample run, before it listens, asked to accept as
  \<^verbatim>\<open>"y"\<close>.\<close>

theorem accept_with_nothing_pending_echoes_session_name_witness:
  "map_option pending_client_count (servers with_server (KStr ''S'')) = Some 0 \<and>
   (\<exists>st'. handle_server_accept control_1
            [(''type'', JStr ''server_accept''), (''name'', JStr ''S''),
             (''session_name'', JStr ''y'')] with_server = (Return (), st') \<and>
          sent st' = sent with_server @
            [(1, ServerAcceptedMessage (JStr ''S'') True [] (JStr ''y''))])"
proof -
  let ?m = "[(''type'', JStr ''server_accept''), (''name'', JStr ''S''),
             (''session_name'', JStr ''y'')]"
  obtain sv where sv: "servers with_server (KStr ''S'') = Some sv" "pending_client_count sv = 0"
    by (simp add: with_server_eq pending_client_count_def)
  have n: "msg_index ?m ''name'' = Inr (JStr ''S'')" "key_of (JStr ''S'') = Some (KStr ''S'')"
    by (simp_all add: msg_index_def)
  have s: "key_of (msg_get ?m ''session_name'') = Some (KStr ''y'')"
    by (simp add: msg_get_def)
  from accept_with_nothing_pending_echoes_session_name [OF n sv s, of control_1] sv
  show ?thesis by (simp add: msg_get_def control_1_def)
qed

text \<open>The session name of the response is not empty: asked to accept as \<^verbatim>\<open>"x"\<close>
  with nothing pending, the handler answers with the session name \<^verbatim>\<open>"x"\<close>.\<close>

theorem accept_with_nothing_pending_counterexample:
  "map_option pending_client_count (servers with_server (KStr ''S'')) = Some 0 \<and>
   fst (handle_server_accept control_1
          [(''type'', JStr ''server_accept''), (''name'', JStr ''S''),
           (''session_name'', JStr ''x'')] with_server) = Return () \<and>
   sent (snd (handle_server_accept control_1
          [(''type'', JStr ''server_accept''), (''name'', JStr ''S''),
           (''session_name'', JStr ''x'')] with_server))
     = sent with_server @ [(1, ServerAcceptedMessage (JStr ''S'') True [] (JStr ''x''))]"
  by (simp add: with_server_eq pending_client_count_def handle_server_accept_def msg_index_def
      msg_get_def accept_client_session_def send_response_def control_1_def Let_def)

text \<open>
  C9. For every \<^verbatim>\<open>server_accept\<close> request that names an existing server with no pending
  connection, the handler binds the requested session name to \<^verbatim>\<open>None\<close> in the
  \<^verbatim>\<open>_server_sessions\<close> table and answers with success and the requested session name;
  a \<^verbatim>\<open>server_is_connected_request\<close> for that name then gets the failure response with
  the reason "No such session ...".
\<close>

theorem accept_with_nothing_pending_binds_null_session:
  assumes "msg_index m ''name'' = Inr name" and "key_of name = Some k"
    and "servers st k = Some sv" and "pending_client_count sv = 0"
    and "msg_get m ''session_name'' = session_name" and "key_of session_name = Some sk"
    and "msg_get m2 ''name'' = session_name"
  shows "\<exists>st'. handle_server_accept control m st = (Return (), st') \<and>
           server_sessions st' = (server_sessions st)(sk \<mapsto> None) \<and>
           sent st' = sent st @ [(cs_socket control,
              ServerAcceptedMessage name True [] session_name)] \<and>
           handle_server_is_connected_request control m2 st' =
             (Return (),
              send_response control
                (ServerIsConnectedResponse session_name False
                   (''No such session '' @ py_str session_name) False) st')"
proof -
  from assms(4) have "sv_pending_sessions sv = []" by (simp add: pending_client_count_def)
  from accept_nothing_pending [OF assms(1,2,3) this, of sk control] assms(5,6,7)
  show ?thesis
    by (simp add: handle_server_is_connected_request_def server_sessions_get_def format_s_def)
qed

text \<open>Server \<^verbatim>\<open>"S"\<close> of the sample run, before it listens, asked to accept as
  \<^verbatim>\<open>"z"\<close>, and then asked whether \<^verbatim>\<open>"z"\<close> is connected.\<close>

theorem accept_with_nothing_pending_binds_null_session_witness:
  "map_option pending_client_count (servers with_server (KStr ''S'')) = Some 0 \<and>
   (\<exists>st'. handle_server_accept control_1
            [(''type'', JStr ''server_accept''), (''name'', JStr ''S''),
             (''session_name'', JStr ''z'')] with_server = (Return (), st') \<and>
          server_sessions st' (KStr ''z'') = Some None \<and>
          sent st' = sent with_server @
            [(1, ServerAcceptedMessage (JStr ''S'') True [] (JStr ''z''))] \<and>
          handle_server_is_connected_request control_1
            [(''type'', JStr ''server_is_connected_request''), (''name'', JStr ''z'')] st'
          = (Return (),
             st'\<lparr>sent := sent st' @
               [(1, ServerIsConnectedResponse (JStr ''z'') False ''No such session z'' False)]\<rparr>))"
proof -
  let ?m = "[(''type'', JStr ''server_accept''), (''name'', JStr ''S''),
             (''session_name'', JStr ''z'')]"
  let ?m2 = "[(''type'', JStr ''server_is_connected_request''), (''name'', JStr ''z'')]"
  obtain sv where sv: "servers with_server (KStr ''S'') = Some sv" "pending_client_count sv = 0"
    by (simp add: with_server_eq pending_client_count_def)
  have n: "msg_index ?m ''name'' = Inr (JStr ''S'')" "key_of (JStr ''S'') = Some (KStr ''S'')"
    by (simp_all add: msg_index_def)
  have s: "msg_get ?m ''session_name'' = JStr ''z''" "key_of (JStr ''z'') = Some (KStr ''z'')"
    "msg_get ?m2 ''name'' = JStr ''z''"
    by (simp_all add: msg_get_def)
  from accept_with_nothing_pending_binds_null_session [OF n sv s, of control_1] sv
  show ?thesis by (auto simp: control_1_def send_response_def)
qed

subsection \<open>C7: client names are unique\<close>

text \<open>
  C7 (name uniqueness). For any name: after a \<^verbatim>\<open>client_create\<close> for it, a second
  \<^verbatim>\<open>client_create\<close> for the same name is answered with success false and the reason
  "Client ... already exists", and leaves the client table unchanged. And when the name
  was new: after the two creates, \<^verbatim>\<open>client_destroy\<close> succeeds and removes the name, and
  a further \<^verbatim>\<open>client_create\<close> succeeds and binds it again.
\<close>

theorem client_name_uniqueness:
  assumes "msg_get m ''name'' = name" and "key_of name = Some k"
  shows "(\<exists>st1 st2 reason.
            handle_client_create control m st = (Return (), st1) \<and>
            handle_client_create control m st1 = (Return (), st2) \<and>
            sent st2 = sent st1 @ [(cs_socket control, ClientCreatedMessage name False reason)] \<and>
            reason = ''Client '' @ py_str name @ '' already exists'' \<and>
            sublist ''already exists'' reason \<and>
            clients st2 = clients st1) \<and>
         (clients st k = None \<longrightarrow>
           (\<exists>st1 st2 st3 st4.
              handle_client_create control m st = (Return (), st1) \<and>
              sent st1 = sent st @ [(cs_socket control, ClientCreatedMessage name True [])] \<and>
              handle_client_create control m st1 = (Return (), st2) \<and>
              handle_client_destroy control m st2 = (Return (), st3) \<and>
              sent st3 = sent st2 @ [(cs_socket control, ClientDestroyedMessage name True [])] \<and>
              clients st3 k = None \<and>
              handle_client_create control m st3 = (Return (), st4) \<and>
              sent st4 = sent st3 @ [(cs_socket control, ClientCreatedMessage name True [])] \<and>
              clients st4 k \<noteq> None))"
proof (intro conjI impI)
  from create_binds [OF assms, of control st] obtain st1 where
    1: "handle_client_create control m st = (Return (), st1)" "clients st1 k \<noteq> None" by blast
  from create_existing [OF assms 1(2), of control] already_exists_sublist [of name] 1(1)
  show "\<exists>st1 st2 reason.
            handle_client_create control m st = (Return (), st1) \<and>
            handle_client_create control m st1 = (Return (), st2) \<and>
            sent st2 = sent st1 @ [(cs_socket control, ClientCreatedMessage name False reason)] \<and>
            reason = ''Client '' @ py_str name @ '' already exists'' \<and>
            sublist ''already exists'' reason \<and>
            clients st2 = clients st1"
    by (simp add: format_s_def)
next
  assume new: "clients st k = None"
  from create_new [OF assms new, of control] obtain st1 c where
    1: "handle_client_create control m st = (Return (), st1)"
       "sent st1 = sent st @ [(cs_socket control, ClientCreatedMessage name True [])]"
       "clients st1 = (clients st)(k \<mapsto> c)" "\<not> c_is_connected c" by blast
  define st2 where "st2 = st1\<lparr>sent := sent st1 @ [(cs_socket control,
               ClientCreatedMessage name False (format_s ''Client '' '' already exists'' name))]\<rparr>"
  have 2: "handle_client_create control m st1 = (Return (), st2)"
    using create_existing [OF assms, of st1 control] 1(3) by (simp add: st2_def)
  have c2: "clients st2 k = Some c" using 1(3) by (simp add: st2_def)
  define st3 where "st3 = st2\<lparr>clients := (clients st2)(k := None),
               sent := sent st2 @ [(cs_socket control, ClientDestroyedMessage name True [])]\<rparr>"
  have 3: "handle_client_destroy control m st2 = (Return (), st3)"
    using destroy_unconnected [OF assms c2 1(4), of control] by (simp add: st3_def)
  have c3: "clients st3 k = None" by (simp add: st3_def)
  from create_new [OF assms c3, of control] obtain st4 where
    4: "handle_client_create control m st3 = (Return (), st4)"
       "sent st4 = sent st3 @ [(cs_socket control, ClientCreatedMessage name True [])]"
       "clients st4 k \<noteq> None" by auto
  have s3: "sent st3 = sent st2 @ [(cs_socket control, ClientDestroyedMessage name True [])]"
    by (simp add: st3_def)
  from 1(1,2) 2 3 s3 c3 4 show "\<exists>st1 st2 st3 st4.
              handle_client_create control m st = (Return (), st1) \<and>
              sent st1 = sent st @ [(cs_socket control, ClientCreatedMessage name True [])] \<and>
              handle_client_create control m st1 = (Return (), st2) \<and>
              handle_client_destroy control m st2 = (Return (), st3) \<and>
              sent st3 = sent st2 @ [(cs_socket control, ClientDestroyedMessage name True [])] \<and>
              clients st3 k = None \<and>
              handle_client_create control m st3 = (Return (), st4) \<and>
              sent st4 = sent st3 @ [(cs_socket control, ClientCreatedMessage name True [])] \<and>
              clients st4 k \<noteq> None"
    by blast
qed

text \<open>The four requests for the name \<^verbatim>\<open>"A"\<close>, on the fresh agent.\<close>

theorem client_name_uniqueness_witness:
  "clients with_control (KStr ''A'') = None \<and>
   (\<exists>st1 st2 st3 st4.
      handle_client_create control_1 [(''name'', JStr ''A'')] with_control = (Return (), st1) \<and>
      sent st1 = [(1, ClientCreatedMessage (JStr ''A'') True [])] \<and>
      handle_client_create control_1 [(''name'', JStr ''A'')] st1 = (Return (), st2) \<and>
      sent st2 = sent st1 @
        [(1, ClientCreatedMessage (JStr ''A'') False ''Client A already exists'')] \<and>
      clients st2 = clients st1 \<and>
      handle_client_destroy control_1 [(''name'', JStr ''A'')] st2 = (Return (), st3) \<and>
      sent st3 = sent st2 @ [(1, ClientDestroyedMessage (JStr ''A'') True [])] \<and>
      clients st3 (KStr ''A'') = None \<and>
      handle_client_create control_1 [(''name'', JStr ''A'')] st3 = (Return (), st4) \<and>
      sent st4 = sent st3 @ [(1, ClientCreatedMessage (JStr ''A'') True [])] \<and>
      clients st4 (KStr ''A'') \<noteq> None)"
proof -
  let ?m = "[(''name'', JStr ''A'')]"
  have n: "msg_get ?m ''name'' = JStr ''A''" "key_of (JStr ''A'') = Some (KStr ''A'')"
    by (simp_all add: msg_get_def)
  have new: "clients with_control (KStr ''A'') = None" by (simp add: with_control_eq)
  have s: "sent with_control = []" by (simp add: with_control_eq)
  from client_name_uniqueness [OF n, of control_1 with_control] new
  obtain st1 st2 st3 st4 where c:
      "handle_client_create control_1 ?m with_control = (Return (), st1)"
      "sent st1 = sent with_control @ [(cs_socket control_1, ClientCreatedMessage (JStr ''A'') True [])]"
      "handle_client_create control_1 ?m st1 = (Return (), st2)"
      "handle_client_destroy control_1 ?m st2 = (Return (), st3)"
      "sent st3 = sent st2 @ [(cs_socket control_1, ClientDestroyedMessage (JStr ''A'') True [])]"
      "clients st3 (KStr ''A'') = None"
      "handle_client_create control_1 ?m st3 = (Return (), st4)"
      "sent st4 = sent st3 @ [(cs_socket control_1, ClientCreatedMessage (JStr ''A'') True [])]"
      "clients st4 (KStr ''A'') \<noteq> None"
    by blast
  from client_name_uniqueness [OF n, of control_1 with_control] c(1)
  obtain st2' where d:
      "handle_client_create control_1 ?m st1 = (Return (), st2')"
      "sent st2' = sent st1 @ [(cs_socket control_1,
          ClientCreatedMessage (JStr ''A'') False (''Client '' @ py_str (JStr ''A'') @ '' already exists''))]"
      "clients st2' = clients st1"
    by auto
  from d c(3) have e: "st2' = st2" by simp
  from new s c d(2,3) [unfolded e] show ?thesis
    by (simp add: control_1_def)
qed

subsection \<open>C8: the socket of a client\<close>

text \<open>
  C8, as the code has it. A \<^verbatim>\<open>Client\<close> owns one socket from its construction on: the
  constructor makes a new socket and leaves the client not connected and the socket
  unregistered; a \<^verbatim>\<open>connect\<close> that returns keeps that same socket, makes no new one,
  sets the client connected and registers the socket with the event loop; a
  \<^verbatim>\<open>disconnect\<close> that returns removes the registration and closes the socket, and the
  client keeps the closed socket.
\<close>

theorem client_owns_socket_from_construction:
  "(case Client_init name st of
      (c, st') \<Rightarrow>
        c_socket c = next_sock st \<and> next_sock st' = Suc (next_sock st) \<and>
        \<not> c_is_connected c \<and> readers st' = readers st \<and> closed_socks st' = closed_socks st) \<and>
   (Client_connect e c host port st = (Return (), c1, st1) \<longrightarrow>
      c_socket c1 = c_socket c \<and> c_is_connected c1 \<and> next_sock st1 = next_sock st \<and>
      readers st1 = insert (c_socket c) (readers st)) \<and>
   (Client_disconnect c st = (Return (), c2, st2) \<longrightarrow>
      c_socket c2 = c_socket c \<and> \<not> c_is_connected c2 \<and> next_sock st2 = next_sock st \<and>
      readers st2 = readers st - {c_socket c} \<and>
      closed_socks st2 = insert (c_socket c) (closed_socks st))"
  by (auto simp: Client_init_def new_socket_def Client_connect_def add_reader_def Let_def
      Client_disconnect_def remove_reader_def close_socket_def
      split: outcome.splits if_splits)

text \<open>Client \<^verbatim>\<open>"A"\<close> constructed on the fresh agent, connected and disconnected:
  its socket is socket 2 throughout.\<close>

theorem client_owns_socket_from_construction_witness:
  "(case Client_init (JStr ''A'') with_control of
      (c, st) \<Rightarrow>
        c_socket c = 2 \<and> next_sock with_control = 2 \<and> next_sock st = 3 \<and>
        \<not> c_is_connected c \<and>
        (case Client_connect sample_env c (JStr ''localhost'') (JInt 9000) st of
           (out1, c1, st1) \<Rightarrow>
             out1 = Return () \<and> c_socket c1 = 2 \<and> c_is_connected c1 \<and> next_sock st1 = 3 \<and>
             2 \<in> readers st1 \<and>
             (case Client_disconnect c1 st1 of
                (out2, c2, st2) \<Rightarrow>
                  out2 = Return () \<and> c_socket c2 = 2 \<and> \<not> c_is_connected c2 \<and>
                  2 \<notin> readers st2 \<and> 2 \<in> closed_socks st2)))"
proof -
  obtain c st where i: "Client_init (JStr ''A'') with_control = (c, st)"
    by (cases "Client_init (JStr ''A'') with_control")
  obtain out1 c1 st1 where
    co: "Client_connect sample_env c (JStr ''localhost'') (JInt 9000) st = (out1, c1, st1)"
    by (cases "Client_connect sample_env c (JStr ''localhost'') (JInt 9000) st")
  obtain out2 c2 st2 where d: "Client_disconnect c1 st1 = (out2, c2, st2)"
    by (cases "Client_disconnect c1 st1")
  have n: "next_sock with_control = 2" by (simp add: with_control_eq)
  from i have st: "st = with_control\<lparr>next_sock := 3\<rparr>" by (simp add: fresh_client_A)
  have o1: "out1 = Return ()"
    using co by (auto simp: st Client_connect_def sock_connect_def port_arg_def
        sample_env_def with_control_eq)
  have a: "c_socket c = 2 \<and> next_sock st = 3 \<and> \<not> c_is_connected c"
    using client_owns_socket_from_construction [where name = "JStr ''A''" and st = with_control] i n by simp
  have b: "c_socket c1 = 2 \<and> c_is_connected c1 \<and> next_sock st1 = 3 \<and> 2 \<in> readers st1"
    using client_owns_socket_from_construction
      [where e = sample_env and c = c and host = "JStr ''localhost''" and port = "JInt 9000"
         and st = st and ?c1.0 = c1 and ?st1.0 = st1] co o1 a
    by simp
  have o2: "out2 = Return ()"
    using d b by (auto simp: Client_disconnect_def remove_reader_def split: if_splits)
  have "c_socket c2 = 2 \<and> \<not> c_is_connected c2 \<and> 2 \<notin> readers st2 \<and> 2 \<in> closed_socks st2"
    using client_owns_socket_from_construction
      [where c = c1 and st = st1 and ?c2.0 = c2 and ?st2.0 = st2] d o2 b
    by simp
  with i co d n o1 o2 a b show ?thesis by simp
qed

text \<open>A client that was created and never connected holds a socket: the constructor
  took socket 2, and the client of the \<^verbatim>\<open>client_create\<close> request is not connected and
  holds socket 2, which is open.\<close>

theorem client_socket_only_while_connected_counterexample:
  "next_sock with_control = 2 \<and>
   \<not> c_is_connected (fst (Client_init (JStr ''A'') with_control)) \<and>
   c_socket (fst (Client_init (JStr ''A'') with_control)) = 2 \<and>
   next_sock (snd (Client_init (JStr ''A'') with_control)) = 3 \<and>
   2 \<notin> closed_socks (snd (Client_init (JStr ''A'') with_control)) \<and>
   map_option c_is_connected (clients with_client (KStr ''A'')) = Some False \<and>
   map_option c_socket (clients with_client (KStr ''A'')) = Some 2 \<and>
   2 \<notin> closed_socks with_client"
  by (simp add: fresh_client_A, simp add: with_control_eq with_client_eq)

subsection \<open>C10: destroying a server\<close>

text \<open>
  What \<^verbatim>\<open>server_destroy\<close> does to the sessions. For every \<^verbatim>\<open>server_destroy\<close> request
  that names an existing server, the \<^verbatim>\<open>_server_sessions\<close> table of the agent is left
  unchanged. The handler returns when the server is not listening and its sessions are
  sound (each connected one has an open socket of its own). Whenever the handler returns,
  the server is gone from its table and each of its accepted sessions has been destroyed
  (not connected, queue empty) without leaving \<^verbatim>\<open>_server_sessions\<close>: every name that
  resolved to such a session still does, a \<^verbatim>\<open>server_is_connected_request\<close> for it is
  answered with success and "not connected", and a \<^verbatim>\<open>server_disconnect\<close> for it finds
  the session and calls its \<^verbatim>\<open>disconnect\<close>.
\<close>

lemma server_destroy_leaves_server_sessions:
  assumes "key_of (msg_get m ''name'') = Some k" and "servers st k = Some sv"
    and "handle_server_destroy control m st = (out, st')"
  shows "server_sessions st' = server_sessions st \<and>
         (sv_socket sv = None \<and>
          sessions_sound st (sv_pending_sessions sv @ map snd (sv_accepted_sessions sv)) \<longrightarrow>
            out = Return ()) \<and>
         (out = Return () \<longrightarrow>
            servers st' k = None \<and>
            (\<forall>i \<in> snd ` set (sv_accepted_sessions sv).
               \<not> ss_is_connected (heap st' i) \<and> ss_queue (heap st' i) = [] \<and>
               (\<forall>m2 sk. key_of (msg_get m2 ''name'') = Some sk \<and>
                         server_sessions_get st sk = Some i \<longrightarrow>
                  server_sessions_get st' sk = Some i \<and>
                  handle_server_is_connected_request control m2 st' =
                    (Return (),
                     send_response control
                       (ServerIsConnectedResponse (msg_get m2 ''name'') True [] False) st') \<and>
                  handle_server_disconnect control m2 st' =
                    (case ServerSession_disconnect i st' of
                       (Raise err, st1) \<Rightarrow> (Raise err, st1)
                     | (Return _, st1) \<Rightarrow>
                         (Return (),
                          send_response control
                            (ServerDisconnectedMessage (msg_get m2 ''name'') True []) st1)))))"
proof -
  obtain o1 sv1 st1 where d: "Server_destroy sv st = (o1, sv1, st1)"
    by (cases "Server_destroy sv st")
  note f = Server_destroy_frame [OF d]
  have st': "st' = (case o1 of
                      Raise err \<Rightarrow> st1\<lparr>servers := (servers st1)(k \<mapsto> sv1)\<rparr>
                    | Return _ \<Rightarrow> send_response control
                         (ServerDestroyedMessage (msg_get m ''name'') True [])
                         (st1\<lparr>servers := (servers st1)(k := None)\<rparr>))"
    and out: "out = (case o1 of Raise err \<Rightarrow> Raise err | Return _ \<Rightarrow> Return ())"
    using assms d by (auto simp: handle_server_destroy_def Let_def split: outcome.splits)
  have tab: "server_sessions st' = server_sessions st"
    using f by (cases o1) (simp_all add: st' send_response_def)
  have rest: "servers st' k = None \<and>
            (\<forall>i \<in> snd ` set (sv_accepted_sessions sv).
               \<not> ss_is_connected (heap st' i) \<and> ss_queue (heap st' i) = [] \<and>
               (\<forall>m2 sk. key_of (msg_get m2 ''name'') = Some sk \<and>
                         server_sessions_get st sk = Some i \<longrightarrow>
                  server_sessions_get st' sk = Some i \<and>
                  handle_server_is_connected_request control m2 st' =
                    (Return (),
                     send_response control
                       (ServerIsConnectedResponse (msg_get m2 ''name'') True [] False) st') \<and>
                  handle_server_disconnect control m2 st' =
                    (case ServerSession_disconnect i st' of
                       (Raise err, st1) \<Rightarrow> (Raise err, st1)
                     | (Return _, st1) \<Rightarrow>
                         (Return (),
                          send_response control
                            (ServerDisconnectedMessage (msg_get m2 ''name'') True []) st1))))"
    if ok: "out = Return ()"
  proof -
    from ok out have o1: "o1 = Return ()" by (cases o1) simp_all
    have h: "heap st' = heap st1" and s: "servers st' k = None"
      by (simp_all add: st' o1 send_response_def)
    have get: "server_sessions_get st' sk = server_sessions_get st sk" for sk
      using tab by (simp add: server_sessions_get_def)
    have "\<not> ss_is_connected (heap st' i) \<and> ss_queue (heap st' i) = []"
      if "i \<in> snd ` set (sv_accepted_sessions sv)" for i
      using Server_destroy_done [OF d [unfolded o1] that] by (simp add: destroyed_def h)
    with s get show ?thesis
      by (auto simp: handle_server_is_connected_request_def handle_server_disconnect_def
          ServerSession_is_connected_def Let_def)
  qed
  have completes: "out = Return ()"
    if "sv_socket sv = None"
      and "sessions_sound st (sv_pending_sessions sv @ map snd (sv_accepted_sessions sv))"
    using handle_server_destroy_completes [OF assms(1,2) that, of control] assms(3) by auto
  from tab completes rest show ?thesis by blast
qed

text \<open>In the sample run, after the server has stopped listening: session \<^verbatim>\<open>"x"\<close> is
  connected before \<^verbatim>\<open>server_destroy\<close>, and afterwards the name still resolves, to a
  session that is not connected.\<close>

lemma server_destroy_quiet_sample:
  "map_option sv_socket (servers quiet (KStr ''S'')) = Some None \<and>
   sessions_sound quiet [0] \<and>
   ss_is_connected (heap quiet 0) \<and>
   (case handle_server_destroy control_1
           [(''type'', JStr ''server_destroy''), (''name'', JStr ''S'')] quiet of
      (out, st') \<Rightarrow>
        out = Return () \<and>
        server_sessions st' = server_sessions quiet \<and>
        server_sessions st' (KStr ''x'') = Some (Some 0) \<and>
        servers st' (KStr ''S'') = None \<and>
        \<not> ss_is_connected (heap st' 0) \<and>
        handle_server_is_connected_request control_1
          [(''type'', JStr ''server_is_connected_request''), (''name'', JStr ''x'')] st'
        = (Return (),
           st'\<lparr>sent := sent st' @ [(1, ServerIsConnectedResponse (JStr ''x'') True [] False)]\<rparr>))"
proof -
  let ?m = "[(''type'', JStr ''server_destroy''), (''name'', JStr ''S'')]"
  let ?m2 = "[(''type'', JStr ''server_is_connected_request''), (''name'', JStr ''x'')]"
  obtain out st' where h: "handle_server_destroy control_1 ?m quiet = (out, st')"
    by (cases "handle_server_destroy control_1 ?m quiet")
  obtain sv where sv: "servers quiet (KStr ''S'') = Some sv"
      "sv_accepted_sessions sv = [(KStr ''x'', 0)]" "sv_pending_sessions sv = []"
      "sv_socket sv = None"
    by (simp add: quiet_eq)
  have k: "key_of (msg_get ?m ''name'') = Some (KStr ''S'')" by (simp add: msg_get_def)
  have sound: "sessions_sound quiet [0]"
    by (simp add: sessions_sound_def quiet_eq)
  have ok: "out = Return ()"
    using server_destroy_leaves_server_sessions [OF k sv(1) h] sv(2,3,4) sound by simp
  have g: "key_of (msg_get ?m2 ''name'') = Some (KStr ''x'')"
      "server_sessions_get quiet (KStr ''x'') = Some 0" "server_sessions quiet (KStr ''x'') = Some (Some 0)"
      "msg_get ?m2 ''name'' = JStr ''x''"
    by (simp_all add: msg_get_def server_sessions_get_def quiet_eq)
  have c: "ss_is_connected (heap quiet 0)" by (simp add: quiet_eq)
  from server_destroy_leaves_server_sessions [OF k sv(1) h] ok sv g c h sound
  show ?thesis by (auto simp: send_response_def control_1_def)
qed

text \<open>
  C10. The claim: every \<^verbatim>\<open>server_destroy\<close> of an existing server leaves the
  \<^verbatim>\<open>_server_sessions\<close> table unchanged, so that the names of the server's accepted
  sessions still resolve, now to destroyed sessions. For a server that is not listening
  the code does this (\<open>server_destroy_leaves_server_sessions\<close>). For a server that
  listens it destroys nothing: \<^verbatim>\<open>Server.destroy\<close> calls \<^verbatim>\<open>self.unlisten()\<close> without
  the \<^verbatim>\<open>port\<close> argument that \<^verbatim>\<open>unlisten\<close> requires, which raises \<^verbatim>\<open>TypeError\<close>.
  The handler raises, no response is sent and the state is as before: the server is still
  in its table and its sessions are as they were.
\<close>

theorem server_destroy_listening_raises:
  assumes "key_of (msg_get m ''name'') = Some k" and "servers st k = Some sv"
    and "sv_socket sv = Some fd"
  shows "handle_server_destroy control m st = (Raise TypeError, st)"
proof -
  have "Server_destroy sv st = (Raise TypeError, sv, st)"
    using assms(3) by (simp add: Server_destroy_def)
  moreover have "(servers st)(k \<mapsto> sv) = servers st"
    using assms(2) by (simp add: fun_upd_idem)
  ultimately show ?thesis
    using assms(1,2) by (simp add: handle_server_destroy_def Let_def)
qed

text \<open>In the sample run, while the server listens: after \<^verbatim>\<open>server_destroy\<close> the name
  \<^verbatim>\<open>"x"\<close> resolves to session 0, which is still connected and registered.\<close>

theorem server_destroy_listening_raises_witness:
  "map_option sv_socket (servers busy (KStr ''S'')) = Some (Some 3) \<and>
   map_option sv_accepted_sessions (servers busy (KStr ''S'')) = Some [(KStr ''x'', 0)] \<and>
   server_sessions busy (KStr ''x'') = Some (Some 0) \<and>
   handle_server_destroy control_1
     [(''type'', JStr ''server_destroy''), (''name'', JStr ''S'')] busy = (Raise TypeError, busy) \<and>
   ss_is_connected (heap busy 0) \<and> ss_socket (heap busy 0) = Some 4 \<and> 4 \<in> readers busy"
proof -
  let ?m = "[(''type'', JStr ''server_destroy''), (''name'', JStr ''S'')]"
  have k: "key_of (msg_get ?m ''name'') = Some (KStr ''S'')" by (simp add: msg_get_def)
  obtain sv where sv: "servers busy (KStr ''S'') = Some sv" "sv_socket sv = Some 3"
      "sv_accepted_sessions sv = [(KStr ''x'', 0)]"
    by (simp add: busy_eq)
  have s: "server_sessions busy (KStr ''x'') = Some (Some 0)" "ss_is_connected (heap busy 0)"
      "ss_socket (heap busy 0) = Some 4" "4 \<in> readers busy"
    by (simp_all add: busy_eq)
  from server_destroy_listening_raises [OF k sv(1,2), of control_1] sv s show ?thesis by simp
qed

end
